theory Spec2Isabelle
  imports Complex_Main
begin

section \<open>Numbers, vectors and boxes\<close>

text \<open>
  The simulation core of \<^verbatim>\<open>SceneCanvas.tsx\<close> computes with JavaScript numbers and GLSL
  floats. They are modelled as exact reals: rounding is not part of any property below.
  One quantity is different: the fall threshold is the quotient of two bounding-box
  differences, whose divisor can be zero and whose operands can be infinite (an empty
  \<^verbatim>\<open>Box3\<close> has \<^verbatim>\<open>min = +Infinity\<close> and \<^verbatim>\<open>max = -Infinity\<close>). For
  it the IEEE special values are kept, in the type \<open>jsnum\<close>. A zero divisor stands for
  \<^verbatim>\<open>+0\<close>: the divisor of the source is \<^verbatim>\<open>maxVal - minVal\<close>, and a difference that is zero
  is \<^verbatim>\<open>+0\<close>.
\<close>

datatype jsnum = Fin real | PosInf | NegInf | NaN

fun js_add :: "jsnum \<Rightarrow> jsnum \<Rightarrow> jsnum" where
  "js_add NaN _ = NaN"
| "js_add _ NaN = NaN"
| "js_add (Fin a) (Fin b) = Fin (a + b)"
| "js_add PosInf NegInf = NaN"
| "js_add NegInf PosInf = NaN"
| "js_add PosInf _ = PosInf"
| "js_add _ PosInf = PosInf"
| "js_add NegInf _ = NegInf"
| "js_add _ NegInf = NegInf"

fun js_neg :: "jsnum \<Rightarrow> jsnum" where
  "js_neg (Fin a) = Fin (- a)"
| "js_neg PosInf = NegInf"
| "js_neg NegInf = PosInf"
| "js_neg NaN = NaN"

definition js_sub :: "jsnum \<Rightarrow> jsnum \<Rightarrow> jsnum" where
  "js_sub a b = js_add a (js_neg b)"

fun js_div :: "jsnum \<Rightarrow> jsnum \<Rightarrow> jsnum" where
  "js_div NaN _ = NaN"
| "js_div _ NaN = NaN"
| "js_div (Fin a) (Fin b) =
     (if b \<noteq> 0 then Fin (a / b)
      else if 0 < a then PosInf else if a < 0 then NegInf else NaN)"
| "js_div (Fin a) _ = Fin 0"
| "js_div PosInf (Fin b) = (if 0 \<le> b then PosInf else NegInf)"
| "js_div NegInf (Fin b) = (if 0 \<le> b then NegInf else PosInf)"
| "js_div _ _ = NaN"

text \<open>\<^verbatim>\<open>Math.max\<close> and \<^verbatim>\<open>Math.min\<close> return \<^verbatim>\<open>NaN\<close> as soon as one argument is \<^verbatim>\<open>NaN\<close>.\<close>

fun js_max :: "jsnum \<Rightarrow> jsnum \<Rightarrow> jsnum" where
  "js_max NaN _ = NaN"
| "js_max _ NaN = NaN"
| "js_max PosInf _ = PosInf"
| "js_max _ PosInf = PosInf"
| "js_max NegInf b = b"
| "js_max a NegInf = a"
| "js_max (Fin a) (Fin b) = Fin (max a b)"

fun js_min :: "jsnum \<Rightarrow> jsnum \<Rightarrow> jsnum" where
  "js_min NaN _ = NaN"
| "js_min _ NaN = NaN"
| "js_min NegInf _ = NegInf"
| "js_min _ NegInf = NegInf"
| "js_min PosInf b = b"
| "js_min a PosInf = a"
| "js_min (Fin a) (Fin b) = Fin (min a b)"

text \<open>The comparison \<^verbatim>\<open>x >= t\<close> of a finite \<open>x\<close> with a number: false when \<open>t\<close> is \<^verbatim>\<open>NaN\<close>.\<close>

fun js_ge :: "real \<Rightarrow> jsnum \<Rightarrow> bool" where
  "js_ge x (Fin t) = (t \<le> x)"
| "js_ge x PosInf = False"
| "js_ge x NegInf = True"
| "js_ge x NaN = False"


datatype axis = X | Y | Z

record 'a vec3 =
  vx :: 'a
  vy :: 'a
  vz :: 'a

record 'a box3 =
  bmin :: "'a vec3"
  bmax :: "'a vec3"

fun getAxis :: "'a vec3 \<Rightarrow> axis \<Rightarrow> 'a" where
  "getAxis v X = vx v"
| "getAxis v Y = vy v"
| "getAxis v Z = vz v"

fun setAxis :: "'a vec3 \<Rightarrow> axis \<Rightarrow> 'a \<Rightarrow> 'a vec3" where
  "setAxis v X val = v\<lparr>vx := val\<rparr>"
| "setAxis v Y val = v\<lparr>vy := val\<rparr>"
| "setAxis v Z val = v\<lparr>vz := val\<rparr>"

text \<open>
  The bounds of a \<^verbatim>\<open>Box3\<close> that is made by \<^verbatim>\<open>new THREE.Box3()\<close> and grown by
  \<^verbatim>\<open>expandByPoint\<close>: numbers, or still the infinities of the empty box, and never
  \<^verbatim>\<open>NaN\<close>. \<open>jsBox\<close> is such a box as the handlers read it.
\<close>

datatype bound = Num real | PlusInf | MinusInf

fun js_of :: "bound \<Rightarrow> jsnum" where
  "js_of (Num a) = Fin a"
| "js_of PlusInf = PosInf"
| "js_of MinusInf = NegInf"

definition jsVec :: "bound vec3 \<Rightarrow> jsnum vec3" where
  "jsVec v = \<lparr>vx = js_of (vx v), vy = js_of (vy v), vz = js_of (vz v)\<rparr>"

definition jsBox :: "bound box3 \<Rightarrow> jsnum box3" where
  "jsBox b = \<lparr>bmin = jsVec (bmin b), bmax = jsVec (bmax b)\<rparr>"

definition vec :: "real \<Rightarrow> real \<Rightarrow> real \<Rightarrow> real vec3" where
  "vec a b c = \<lparr>vx = a, vy = b, vz = c\<rparr>"

definition vdot :: "real vec3 \<Rightarrow> real vec3 \<Rightarrow> real" where
  "vdot a b = vx a * vx b + vy a * vy b + vz a * vz b"

definition vcross :: "real vec3 \<Rightarrow> real vec3 \<Rightarrow> real vec3" where
  "vcross a b = vec (vy a * vz b - vz a * vy b) (vz a * vx b - vx a * vz b)
                    (vx a * vy b - vy a * vx b)"

definition vadd :: "real vec3 \<Rightarrow> real vec3 \<Rightarrow> real vec3" where
  "vadd a b = vec (vx a + vx b) (vy a + vy b) (vz a + vz b)"

definition vsub :: "real vec3 \<Rightarrow> real vec3 \<Rightarrow> real vec3" where
  "vsub a b = vec (vx a - vx b) (vy a - vy b) (vz a - vz b)"

definition vscale :: "real vec3 \<Rightarrow> real \<Rightarrow> real vec3" where
  "vscale a k = vec (vx a * k) (vy a * k) (vz a * k)"

definition lengthSq :: "real vec3 \<Rightarrow> real" where
  "lengthSq a = vx a * vx a + vy a * vy a + vz a * vz a"

section \<open>Axis classification (\<^verbatim>\<open>setupTapePeel\<close>)\<close>

text \<open>
  \<^verbatim>\<open>[{x}, {y}, {z}].sort((a, b) => b.len - a.len)\<close>. \<^verbatim>\<open>Array.prototype.sort\<close> is a
  stable sort; it is modelled as the stable insertion sort driven by the comparator: an
  element goes in front of the first element that the comparator puts strictly after it
  (\<^verbatim>\<open>cmp(x, y) < 0\<close>), so elements that compare equal keep the order of the array.
\<close>

fun sort_insert :: "('a \<Rightarrow> 'a \<Rightarrow> real) \<Rightarrow> 'a \<Rightarrow> 'a list \<Rightarrow> 'a list" where
  "sort_insert cmp x [] = [x]"
| "sort_insert cmp x (y # ys) =
     (if cmp x y < 0 then x # y # ys else y # sort_insert cmp x ys)"

definition js_sort :: "('a \<Rightarrow> 'a \<Rightarrow> real) \<Rightarrow> 'a list \<Rightarrow> 'a list" where
  "js_sort cmp xs = foldl (\<lambda>acc x. sort_insert cmp x acc) [] xs"

definition byLenDesc :: "axis \<times> real \<Rightarrow> axis \<times> real \<Rightarrow> real" where
  "byLenDesc a b = snd b - snd a"

definition sortedDims :: "real vec3 \<Rightarrow> (axis \<times> real) list" where
  "sortedDims bSize = js_sort byLenDesc [(X, vx bSize), (Y, vy bSize), (Z, vz bSize)]"

definition lengthAxisOf :: "real vec3 \<Rightarrow> axis" where
  "lengthAxisOf bSize = fst (sortedDims bSize ! 0)"

definition widthAxisOf :: "real vec3 \<Rightarrow> axis" where
  "widthAxisOf bSize = fst (sortedDims bSize ! 1)"

definition flatAxisOf :: "real vec3 \<Rightarrow> axis" where
  "flatAxisOf bSize = fst (sortedDims bSize ! 2)"

text \<open>The position of an axis in the array literal that is sorted: x, y, z.\<close>

fun axisPriority :: "axis \<Rightarrow> nat" where
  "axisPriority X = 0"
| "axisPriority Y = 1"
| "axisPriority Z = 2"

section \<open>The deformation law (\<^verbatim>\<open>patchShader\<close>)\<close>

record uniforms =
  uPeel :: real
  uCurlR :: real
  uPeelNormal :: "real vec3"
  uFlatDir :: "real vec3"
  uPeelEdge :: real
  uMaxDist :: real

text \<open>\<^verbatim>\<open>_s = uPeel * uMaxDist - (dot(position, uPeelNormal) - uPeelEdge)\<close>, in both blocks.\<close>

definition peelDistance :: "uniforms \<Rightarrow> real vec3 \<Rightarrow> real" where
  "peelDistance u p =
     (let d = vdot p (uPeelNormal u) - uPeelEdge u;
          peelLine = uPeel u * uMaxDist u
      in peelLine - d)"

text \<open>
  The two displacement components \<^verbatim>\<open>_dN\<close> (along \<^verbatim>\<open>uPeelNormal\<close>) and \<^verbatim>\<open>_dF\<close> (along
  \<^verbatim>\<open>uFlatDir\<close>) of a vertex at signed peel distance \<open>s\<close>, for curl radius \<open>R\<close>.
\<close>

definition curl_dN :: "real \<Rightarrow> real \<Rightarrow> real" where
  "curl_dN R s = (let a = s / R in s - R * sin a)"

definition curl_dF :: "real \<Rightarrow> real \<Rightarrow> real" where
  "curl_dF R s = (let a = s / R in R * (1 - cos a))"

text \<open>The block after \<^verbatim>\<open>#include <begin_vertex>\<close>, where \<^verbatim>\<open>transformed\<close> is the position.\<close>

definition beginVertex :: "uniforms \<Rightarrow> real vec3 \<Rightarrow> real vec3" where
  "beginVertex u transformed =
     (let s = peelDistance u transformed in
      if 0 < s \<and> 0 < uMaxDist u then
        (let dN = curl_dN (uCurlR u) s;
             dF = curl_dF (uCurlR u) s
         in vadd transformed (vadd (vscale (uPeelNormal u) dN) (vscale (uFlatDir u) dF)))
      else transformed)"

text \<open>The block after \<^verbatim>\<open>#include <beginnormal_vertex>\<close>.\<close>

definition beginNormal :: "uniforms \<Rightarrow> real vec3 \<Rightarrow> real vec3 \<Rightarrow> real vec3" where
  "beginNormal u position objectNormal =
     (let ns = peelDistance u position in
      if 0 < ns \<and> 0 < uMaxDist u then
        (let na = ns / uCurlR u;
             c = cos na;
             sn = sin na;
             nP = vdot objectNormal (uPeelNormal u);
             nF = vdot objectNormal (uFlatDir u);
             tgt = vcross (uPeelNormal u) (uFlatDir u);
             nK = vdot objectNormal tgt
         in vadd (vscale (uPeelNormal u) (nP * c + nF * sn))
              (vadd (vscale (uFlatDir u) (- nP * sn + nF * c)) (vscale tgt nK)))
      else objectNormal)"

text \<open>
  The law as a function of the signed peel distance alone: the pair \<open>(dN, dF)\<close> that the
  vertex block adds along \<^verbatim>\<open>uPeelNormal\<close> and \<^verbatim>\<open>uFlatDir\<close>, and the angle by which the
  normal block turns the normal. Outside the guarded branch nothing is added and nothing
  is turned. \<open>displacement_beginVertex\<close> and \<open>rotation_beginNormal\<close> below tie them to the
  two blocks.
\<close>

definition displacement :: "real \<Rightarrow> real \<Rightarrow> real \<Rightarrow> real \<times> real" where
  "displacement R maxDist s =
     (if 0 < s \<and> 0 < maxDist then (curl_dN R s, curl_dF R s) else (0, 0))"

definition rotationAngle :: "real \<Rightarrow> real \<Rightarrow> real \<Rightarrow> real" where
  "rotationAngle R maxDist s = (if 0 < s \<and> 0 < maxDist then s / R else 0)"

text \<open>Turning a normal by the angle \<open>a\<close> about \<^verbatim>\<open>uPeelNormal \<times> uFlatDir\<close>, as the normal block does.\<close>

definition rotateNormal :: "uniforms \<Rightarrow> real \<Rightarrow> real vec3 \<Rightarrow> real vec3" where
  "rotateNormal u a n =
     (let nP = vdot n (uPeelNormal u);
          nF = vdot n (uFlatDir u);
          tgt = vcross (uPeelNormal u) (uFlatDir u);
          nK = vdot n tgt
      in vadd (vscale (uPeelNormal u) (nP * cos a + nF * sin a))
           (vadd (vscale (uFlatDir u) (- nP * sin a + nF * cos a)) (vscale tgt nK)))"

section \<open>The simulation state and its handlers\<close>

text \<open>
  The variables of the effect closure of \<^verbatim>\<open>SceneCanvas\<close>, after the model has loaded.
  \<open>tapeMesh\<close> and \<open>bananaGroup\<close> say whether the two objects are set; the position and
  the rotation of the group are the fields \<open>bananaPosY\<close> and \<open>bananaRotX\<close>; \<open>peelNode\<close>
  says whether the peel loop is playing. The free flight of the torn tape
  (\<^verbatim>\<open>tapeVel\<close>, \<^verbatim>\<open>tapeRotVel\<close>, \<^verbatim>\<open>lastMouseDelta\<close>), the cursor, the hint and the
  renderer are left out: no property below reads them.
\<close>

record sim =
  tapeMesh :: bool
  bananaGroup :: bool
  bananaPosY :: real
  bananaRotX :: real
  tapeUniforms :: uniforms
  lengthAxis :: axis
  widthAxis :: axis
  flatAxis :: axis
  tapeBB :: "real box3"
  isDragging :: bool
  peelConfigured :: bool
  dragLastX :: real
  dragLastY :: real
  isDeterminingDir :: bool
  dragStartX :: real
  dragStartY :: real
  dragStartLocalHit :: "real vec3 option"
  targetPeelProgress :: real
  currentPeelProgress :: real
  curPeelAxis :: "axis option"
  curPeelSign :: int
  bananaFalling :: bool
  fallVel :: real
  bananaRotVelX :: real
  settled :: bool
  bananaFallThreshold :: jsnum
  bananaBBInTape :: "jsnum box3 option"
  transitionFired :: bool
  isTorn :: bool
  peelNode :: bool

text \<open>
  A pointer event together with what the handlers read from the environment when it
  arrives: the point where the ray through the pointer hits the proxy surface, in the
  local coordinates of the tape (\<open>None\<close> when \<^verbatim>\<open>hits\<close> is empty), the size of the
  window and the width of the container.
\<close>

record pointer =
  clientX :: real
  clientY :: real
  hitPoint :: "real vec3 option"
  innerWidth :: real
  innerHeight :: real
  clientWidth :: real

text \<open>
  What a handler does to the outside: the rip and thud sounds, and \<open>TransitionCallback\<close>
  for the statement \<^verbatim>\<open>onTransition?.()\<close>, which calls the callback of the page when
  one was passed. The states are those of one lifetime of the component, from \<^verbatim>\<open>init\<close>
  to the cleanup.
\<close>

datatype effect = TransitionCallback | ThudSound | RipSound

subsection \<open>\<^verbatim>\<open>onDown\<close>\<close>

definition onDown :: "sim \<Rightarrow> pointer \<Rightarrow> sim" where
  "onDown s e =
     (if isTorn s \<or> \<not> tapeMesh s then s
      else case hitPoint e of
        None \<Rightarrow> s
      | Some h \<Rightarrow>
          (if 0.05 < currentPeelProgress s then
             s\<lparr>isDragging := True, isDeterminingDir := False, peelConfigured := True,
               dragLastX := clientX e, dragLastY := clientY e, peelNode := True\<rparr>
           else
             s\<lparr>isDragging := True, isDeterminingDir := True, peelConfigured := False,
               dragStartX := clientX e, dragStartY := clientY e,
               dragLastX := clientX e, dragLastY := clientY e,
               dragStartLocalHit := Some h\<rparr>))"

subsection \<open>\<^verbatim>\<open>onMove\<close>: locking the direction\<close>

text \<open>The axis the gesture picks: by the drag in local space, or by the nearest edge.\<close>

definition chooseAxis :: "sim \<Rightarrow> pointer \<Rightarrow> real vec3 \<Rightarrow> axis" where
  "chooseAxis s e start =
     (let localDrag = (case hitPoint e of Some newLocalHit \<Rightarrow> vsub newLocalHit start
                                        | None \<Rightarrow> vec 0 0 0)
      in if hitPoint e \<noteq> None \<and> 0.0001 < lengthSq localDrag then
           (let lenMove = \<bar>getAxis localDrag (lengthAxis s)\<bar>;
                widMove = \<bar>getAxis localDrag (widthAxis s)\<bar>
            in if lenMove < widMove then widthAxis s else lengthAxis s)
         else
           (let hitL = getAxis start (lengthAxis s);
                distL = min \<bar>hitL - getAxis (bmin (tapeBB s)) (lengthAxis s)\<bar>
                            \<bar>getAxis (bmax (tapeBB s)) (lengthAxis s) - hitL\<bar>;
                hitW = getAxis start (widthAxis s);
                distW = min \<bar>hitW - getAxis (bmin (tapeBB s)) (widthAxis s)\<bar>
                            \<bar>getAxis (bmax (tapeBB s)) (widthAxis s) - hitW\<bar>
            in if distW < distL then widthAxis s else lengthAxis s))"

definition chooseSign :: "sim \<Rightarrow> real vec3 \<Rightarrow> axis \<Rightarrow> int" where
  "chooseSign s start chosenAxis =
     (let hitVal = getAxis start chosenAxis;
          minVal = getAxis (bmin (tapeBB s)) chosenAxis;
          maxVal = getAxis (bmax (tapeBB s)) chosenAxis
      in if \<bar>hitVal - minVal\<bar> < \<bar>maxVal - hitVal\<bar> then 1 else - 1)"

text \<open>
  The quotient of the projected extent of the wrapped object by the span of the tape,
  and the threshold made of it: \<^verbatim>\<open>Math.min(Math.max(ratio + 0.05, 0.3), 0.95)\<close>.
\<close>

definition fallRatio :: "int \<Rightarrow> axis \<Rightarrow> jsnum box3 \<Rightarrow> real box3 \<Rightarrow> real \<Rightarrow> jsnum" where
  "fallRatio sign chosenAxis bananaBB tape span' =
     (if sign = 1 then
        js_div (js_sub (getAxis (bmax bananaBB) chosenAxis) (Fin (getAxis (bmin tape) chosenAxis)))
               (Fin span')
      else
        js_div (js_sub (Fin (getAxis (bmax tape) chosenAxis)) (getAxis (bmin bananaBB) chosenAxis))
               (Fin span'))"

definition fallThreshold :: "int \<Rightarrow> axis \<Rightarrow> jsnum box3 \<Rightarrow> real box3 \<Rightarrow> real \<Rightarrow> jsnum" where
  "fallThreshold sign chosenAxis bananaBB tape span' =
     js_min (js_max (js_add (fallRatio sign chosenAxis bananaBB tape span') (Fin 0.05)) (Fin 0.3))
            (Fin 0.95)"

definition lockDirection :: "sim \<Rightarrow> pointer \<Rightarrow> real vec3 \<Rightarrow> sim" where
  "lockDirection s e start =
     (let chosenAxis = chooseAxis s e start;
          minVal = getAxis (bmin (tapeBB s)) chosenAxis;
          maxVal = getAxis (bmax (tapeBB s)) chosenAxis;
          sign = chooseSign s start chosenAxis;
          edge = (if sign = 1 then minVal else maxVal);
          span' = maxVal - minVal;
          sameDir = (Some chosenAxis = curPeelAxis s \<and> sign = curPeelSign s);
          s1 = (if \<not> sameDir then
                  s\<lparr>targetPeelProgress := 0, currentPeelProgress := 0,
                    curPeelAxis := Some chosenAxis, curPeelSign := sign,
                    tapeUniforms := (tapeUniforms s)
                      \<lparr>uPeelNormal := setAxis (vec 0 0 0) chosenAxis (real_of_int sign),
                       uPeelEdge := edge * real_of_int sign,
                       uMaxDist := span'\<rparr>,
                    bananaFallThreshold :=
                      (case bananaBBInTape s of
                         None \<Rightarrow> bananaFallThreshold s
                       | Some bb \<Rightarrow> fallThreshold sign chosenAxis bb (tapeBB s) span')\<rparr>
                else s)
      in s1\<lparr>peelConfigured := True, isDeterminingDir := False,
            dragLastX := clientX e, dragLastY := clientY e, peelNode := True\<rparr>)"

subsection \<open>\<^verbatim>\<open>onMove\<close>: dragging\<close>

definition dragDistance :: "sim \<Rightarrow> pointer \<Rightarrow> real" where
  "dragDistance s e =
     (let screenDx = clientX e - dragLastX s;
          screenDy = dragLastY s - clientY e;
          dx = screenDx / innerWidth e;
          dy = screenDy / innerHeight e
      in sqrt (dx * dx + dy * dy))"

definition sensitivity :: "pointer \<Rightarrow> real" where
  "sensitivity e = (if clientWidth e < 768 then 4.5 else 3.5)"

definition dragPeel :: "sim \<Rightarrow> pointer \<Rightarrow> sim" where
  "dragPeel s e =
     s\<lparr>dragLastX := clientX e, dragLastY := clientY e,
       targetPeelProgress :=
         max 0 (min 1.05 (targetPeelProgress s + dragDistance s e * sensitivity e))\<rparr>"

text \<open>
  In the branch that determines the direction, \<^verbatim>\<open>dragStartLocalHit!\<close> is read before
  anything is written: were it \<^verbatim>\<open>null\<close>, the handler would throw there and leave the
  state as it was.
\<close>

definition onMove :: "sim \<Rightarrow> pointer \<Rightarrow> sim" where
  "onMove s e =
     (if \<not> isDragging s \<or> isTorn s then s
      else if isDeterminingDir s then
        (let dx = clientX e - dragStartX s;
             dy = clientY e - dragStartY s
         in if sqrt (dx * dx + dy * dy) < 8 then s
            else case dragStartLocalHit s of
                   None \<Rightarrow> s
                 | Some start \<Rightarrow> lockDirection s e start)
      else if \<not> peelConfigured s then s
      else dragPeel s e)"

subsection \<open>\<^verbatim>\<open>onUp\<close>, \<^verbatim>\<open>tear\<close> and \<^verbatim>\<open>animate\<close>\<close>

definition onUp :: "sim \<Rightarrow> sim" where
  "onUp s = s\<lparr>isDragging := False, peelNode := False\<rparr>"

definition tear :: "sim \<Rightarrow> sim \<times> effect list" where
  "tear s = (s\<lparr>isDragging := False, isTorn := True, bananaFalling := True, peelNode := False\<rparr>,
             [RipSound])"

text \<open>\<^verbatim>\<open>THREE.MathUtils.lerp(x, y, t)\<close> is \<^verbatim>\<open>(1 - t) * x + t * y\<close>.\<close>

definition lerp :: "real \<Rightarrow> real \<Rightarrow> real \<Rightarrow> real" where
  "lerp x y t = (1 - t) * x + t * y"

text \<open>The first block of \<^verbatim>\<open>animate\<close>: easing the peel, starting the fall, tearing.\<close>

definition animatePeel :: "sim \<Rightarrow> sim \<times> effect list" where
  "animatePeel s =
     (if \<not> isTorn s \<and> peelConfigured s then
        (if \<not> bananaFalling s then
           (let cur = lerp (currentPeelProgress s) (targetPeelProgress s) 0.15;
                s1 = s\<lparr>currentPeelProgress := cur,
                       tapeUniforms := (tapeUniforms s)\<lparr>uPeel := min cur 1.0\<rparr>\<rparr>
            in if js_ge cur (bananaFallThreshold s1) then (s1\<lparr>bananaFalling := True\<rparr>, [])
               else (s1, []))
         else
           (let cur = lerp (currentPeelProgress s) 1.05 0.3;
                s1 = s\<lparr>currentPeelProgress := cur,
                       tapeUniforms := (tapeUniforms s)\<lparr>uPeel := min cur 1.0\<rparr>\<rparr>
            in if 0.99 \<le> cur then tear s1 else (s1, [])))
      else (s, []))"

text \<open>The last block of \<^verbatim>\<open>animate\<close>: the fall of the wrapped object.\<close>

definition animateBanana :: "real \<Rightarrow> sim \<Rightarrow> sim \<times> effect list" where
  "animateBanana dt s =
     (if bananaFalling s \<and> bananaGroup s \<and> \<not> settled s then
        (let v = fallVel s - 9.8 * dt;
             y = bananaPosY s + v * dt;
             s1 = s\<lparr>fallVel := v, bananaPosY := y,
                    bananaRotX := bananaRotX s + bananaRotVelX s * dt\<rparr>;
             fire = (\<not> transitionFired s1 \<and> y < - 2);
             s2 = (if fire then s1\<lparr>transitionFired := True\<rparr> else s1);
             e2 = (if fire then [TransitionCallback] else [])
         in if y < - 3 then
              (let s3 = s2\<lparr>bananaPosY := - 3, fallVel := v * (- 0.45),
                            bananaRotVelX := bananaRotVelX s2 * (- 0.5)\<rparr>
               in if \<bar>fallVel s3\<bar> < 0.4 then
                    (s3\<lparr>fallVel := 0, bananaRotVelX := 0, settled := True\<rparr>, e2 @ [ThudSound])
                  else (s3, e2 @ [ThudSound]))
            else (s2, e2))
      else (s, []))"

definition animate :: "sim \<Rightarrow> real \<Rightarrow> sim \<times> effect list" where
  "animate s delta =
     (let dt = min delta (1 / 30);
          (s1, e1) = animatePeel s;
          (s2, e2) = animateBanana dt s1
      in (s2, e1 @ e2))"

subsection \<open>Sequences of events\<close>

datatype event = Down pointer | Move pointer | Up | Frame real

fun step :: "sim \<Rightarrow> event \<Rightarrow> sim \<times> effect list" where
  "step s (Down e) = (onDown s e, [])"
| "step s (Move e) = (onMove s e, [])"
| "step s Up = (onUp s, [])"
| "step s (Frame delta) = animate s delta"

fun run :: "sim \<Rightarrow> event list \<Rightarrow> sim \<times> effect list" where
  "run s [] = (s, [])"
| "run s (ev # evs) =
     (let (s1, e1) = step s ev;
          (s2, e2) = run s1 evs
      in (s2, e1 @ e2))"

subsection \<open>The state after loading\<close>

text \<open>
  The state once the model has loaded and \<^verbatim>\<open>setupTapePeel\<close> has run on a tape geometry
  with bounding box \<open>tape\<close> (and at least 60 vertices, so that the geometry is kept):
  the initialisers of the variables, the classified axes, the flat direction (its sign is
  that of the world-space z component \<open>worldDirZ\<close> of the flat axis) and the box of the
  wrapped object in tape space.
\<close>

definition boxSize :: "real box3 \<Rightarrow> real vec3" where
  "boxSize b = vsub (bmax b) (bmin b)"

definition loadedSim :: "real box3 \<Rightarrow> bound box3 \<Rightarrow> real \<Rightarrow> sim" where
  "loadedSim tape banana worldDirZ =
     (let bSize = boxSize tape in
      \<lparr>tapeMesh = True, bananaGroup = True, bananaPosY = 0, bananaRotX = pi / 2,
       tapeUniforms =
         \<lparr>uPeel = 0.0, uCurlR = 0.12, uPeelNormal = vec 0 0 0,
          uFlatDir = setAxis (vec 0 0 0) (flatAxisOf bSize) (if 0 \<le> worldDirZ then 1 else - 1),
          uPeelEdge = 0.0, uMaxDist = 1.0\<rparr>,
       lengthAxis = lengthAxisOf bSize, widthAxis = widthAxisOf bSize,
       flatAxis = flatAxisOf bSize, tapeBB = tape,
       isDragging = False, peelConfigured = False, dragLastX = 0, dragLastY = 0,
       isDeterminingDir = False, dragStartX = 0, dragStartY = 0, dragStartLocalHit = None,
       targetPeelProgress = 0, currentPeelProgress = 0, curPeelAxis = None, curPeelSign = 0,
       bananaFalling = False, fallVel = 0, bananaRotVelX = 2.0, settled = False,
       bananaFallThreshold = Fin 1.0, bananaBBInTape = Some (jsBox banana),
       transitionFired = False, isTorn = False, peelNode = False\<rparr>)"

subsection \<open>Notions used by the properties\<close>

text \<open>The height of the wrapped object after the integration step of a frame.\<close>

definition fallenPosY :: "sim \<Rightarrow> real \<Rightarrow> real" where
  "fallenPosY s delta =
     (let dt = min delta (1 / 30) in bananaPosY s + (fallVel s - 9.8 * dt) * dt)"

text \<open>The wrapped object has the same position, rotation and velocities in two states.\<close>

definition sameBody :: "sim \<Rightarrow> sim \<Rightarrow> bool" where
  "sameBody s s' \<longleftrightarrow>
     bananaPosY s' = bananaPosY s \<and> bananaRotX s' = bananaRotX s
     \<and> fallVel s' = fallVel s \<and> bananaRotVelX s' = bananaRotVelX s"

text \<open>The numerator of the quotient in \<open>fallRatio\<close>: the projected extent of the wrapped object.\<close>

definition projectedExtent :: "int \<Rightarrow> axis \<Rightarrow> jsnum box3 \<Rightarrow> real box3 \<Rightarrow> jsnum" where
  "projectedExtent sign chosenAxis bananaBB tape =
     (if sign = 1 then
        js_sub (getAxis (bmax bananaBB) chosenAxis) (Fin (getAxis (bmin tape) chosenAxis))
      else
        js_sub (Fin (getAxis (bmax tape) chosenAxis)) (getAxis (bmin bananaBB) chosenAxis))"

definition targetInRange :: "sim \<Rightarrow> bool" where
  "targetInRange s \<longleftrightarrow> 0 \<le> targetPeelProgress s \<and> targetPeelProgress s \<le> 1.05"

text \<open>
  \<^verbatim>\<open>onMove\<close> divides by the size of the window. The quotient of the model is that of
  the source when the divisor is not zero; a window that delivers pointer events has a
  positive size.
\<close>

fun viewportOk :: "event \<Rightarrow> bool" where
  "viewportOk (Down e) = (0 < innerWidth e \<and> 0 < innerHeight e)"
| "viewportOk (Move e) = (0 < innerWidth e \<and> 0 < innerHeight e)"
| "viewportOk Up = True"
| "viewportOk (Frame delta) = True"




subsection \<open>A worked scenario\<close>

text \<open>
  A tape strip 2 long, 0.5 wide and 0.02 thick around the origin with a wrapped object
  behind it, in a 1000 by 1000 window. \<open>demoPeel\<close> is a press near the low end of the
  strip, a first move of 10 pixels along it and a drag of 300 pixels; \<open>demoFall\<close> lets
  61 frames follow; \<open>demoGesture\<close> is a short drag, a frame and a release, followed by a
  press near the high end.
\<close>

definition demoTape :: "real box3" where
  "demoTape = \<lparr>bmin = vec (- 1) (- 1/4) (- 1/100), bmax = vec 1 (1/4) (1/100)\<rparr>"

definition demoBanana :: "bound box3" where
  "demoBanana = \<lparr>bmin = \<lparr>vx = Num (- 1/2), vy = Num (- 1/10), vz = Num (- 1/5)\<rparr>,
                 bmax = \<lparr>vx = Num (1/2), vy = Num (1/10), vz = Num (1/5)\<rparr>\<rparr>"

definition demoSim :: sim where
  "demoSim = loadedSim demoTape demoBanana 1"

definition demoPointer :: "real \<Rightarrow> real \<Rightarrow> real vec3 option \<Rightarrow> pointer" where
  "demoPointer x y h =
     \<lparr>clientX = x, clientY = y, hitPoint = h,
      innerWidth = 1000, innerHeight = 1000, clientWidth = 1000\<rparr>"

definition demoPress :: pointer where
  "demoPress = demoPointer 100 100 (Some (vec (- 4/5) 0 0))"

definition demoLock :: pointer where
  "demoLock = demoPointer 110 100 (Some (vec (- 3/5) 0 0))"

definition demoDrag :: pointer where
  "demoDrag = demoPointer 410 100 (Some (vec (- 2/5) 0 0))"

definition demoPeel :: "event list" where
  "demoPeel = [Down demoPress, Move demoLock, Move demoDrag]"

definition demoFall :: "event list" where
  "demoFall = demoPeel @ replicate 61 (Frame (1 / 30))"

definition demoGesture :: "event list" where
  "demoGesture =
     [Down demoPress, Move demoLock, Move (demoPointer 120 100 (Some (vec (- 2/5) 0 0))),
      Frame (1 / 60), Up, Down (demoPointer 500 100 (Some (vec (4/5) 0 0)))]"

text \<open>
  Degenerate geometry: a wrapped object whose box is a single point, one whose box is
  still empty, a tape without thickness, and a tape without width.
\<close>

definition pointBanana :: "bound box3" where
  "pointBanana = \<lparr>bmin = \<lparr>vx = Num 0, vy = Num 0, vz = Num 0\<rparr>,
                  bmax = \<lparr>vx = Num 0, vy = Num 0, vz = Num 0\<rparr>\<rparr>"

definition emptyBanana :: "bound box3" where
  "emptyBanana = \<lparr>bmin = \<lparr>vx = PlusInf, vy = PlusInf, vz = PlusInf\<rparr>,
                  bmax = \<lparr>vx = MinusInf, vy = MinusInf, vz = MinusInf\<rparr>\<rparr>"

definition flatTape :: "real box3" where
  "flatTape = \<lparr>bmin = vec (- 1) (- 1/4) 0, bmax = vec 1 (1/4) 0\<rparr>"

definition stripTape :: "real box3" where
  "stripTape = \<lparr>bmin = vec (- 1) 0 0, bmax = vec 1 0 0\<rparr>"

section \<open>Properties of the axis classification\<close>

lemma sortedDims_cases:
  "sortedDims \<lparr>vx = ex, vy = ey, vz = ez\<rparr> =
     (if ex < ey then
        (if ey < ez then [(Z, ez), (Y, ey), (X, ex)]
         else if ex < ez then [(Y, ey), (Z, ez), (X, ex)]
         else [(Y, ey), (X, ex), (Z, ez)])
      else
        (if ex < ez then [(Z, ez), (X, ex), (Y, ey)]
         else if ey < ez then [(X, ex), (Z, ez), (Y, ey)]
         else [(X, ex), (Y, ey), (Z, ez)]))"
  by (simp add: sortedDims_def js_sort_def byLenDesc_def)

text \<open>
  C5. For every bounding box with extents \<open>(ex, ey, ez)\<close> the three classified axes are
  pairwise different, their extents are in descending order (largest to
  \<^verbatim>\<open>lengthAxis\<close>, second to \<^verbatim>\<open>widthAxis\<close>, smallest to \<^verbatim>\<open>flatAxis\<close>), and of two
  axes with equal extents the one earlier in the order x, y, z is classified first.
\<close>

theorem axis_classification:
  fixes ex ey ez :: real
  defines "b \<equiv> \<lparr>vx = ex, vy = ey, vz = ez\<rparr>"
  shows "distinct [lengthAxisOf b, widthAxisOf b, flatAxisOf b]
       \<and> getAxis b (widthAxisOf b) \<le> getAxis b (lengthAxisOf b)
       \<and> getAxis b (flatAxisOf b) \<le> getAxis b (widthAxisOf b)
       \<and> (getAxis b (lengthAxisOf b) = getAxis b (widthAxisOf b)
            \<longrightarrow> axisPriority (lengthAxisOf b) < axisPriority (widthAxisOf b))
       \<and> (getAxis b (widthAxisOf b) = getAxis b (flatAxisOf b)
            \<longrightarrow> axisPriority (widthAxisOf b) < axisPriority (flatAxisOf b))
       \<and> (getAxis b (lengthAxisOf b) = getAxis b (flatAxisOf b)
            \<longrightarrow> axisPriority (lengthAxisOf b) < axisPriority (flatAxisOf b))"
  unfolding b_def lengthAxisOf_def widthAxisOf_def flatAxisOf_def sortedDims_cases
  by (simp; linarith)

theorem axis_classification_witness:
  "lengthAxisOf \<lparr>vx = 2, vy = 5, vz = 2\<rparr> = Y
   \<and> widthAxisOf \<lparr>vx = 2, vy = 5, vz = 2\<rparr> = X
   \<and> flatAxisOf \<lparr>vx = 2, vy = 5, vz = (2::real)\<rparr> = Z
   \<and> axisPriority X < axisPriority Z"
  using axis_classification [of 2 5 2]
  by (simp add: lengthAxisOf_def widthAxisOf_def flatAxisOf_def sortedDims_cases)

section \<open>Properties of the deformation law\<close>

lemma displacement_beginVertex:
  "beginVertex u p =
     vadd p (vadd (vscale (uPeelNormal u) (fst (displacement (uCurlR u) (uMaxDist u) (peelDistance u p))))
                  (vscale (uFlatDir u) (snd (displacement (uCurlR u) (uMaxDist u) (peelDistance u p)))))"
  by (simp add: beginVertex_def displacement_def Let_def vadd_def vscale_def vec_def)

lemma rotation_beginNormal:
  "beginNormal u p n =
     (if 0 < peelDistance u p \<and> 0 < uMaxDist u
      then rotateNormal u (rotationAngle (uCurlR u) (uMaxDist u) (peelDistance u p)) n
      else n)"
  by (simp add: beginNormal_def rotateNormal_def rotationAngle_def Let_def)

text \<open>
  C1. A vertex whose signed peel distance is not positive, and every vertex when
  \<^verbatim>\<open>uMaxDist\<close> is not positive, is left where it is and keeps its normal: the displacement
  pair is \<open>(0, 0)\<close> and the normal is turned by the angle 0.
\<close>

theorem undisturbed_before_peel:
  assumes "peelDistance u p \<le> 0 \<or> uMaxDist u \<le> 0"
  shows "beginVertex u p = p
       \<and> beginNormal u p n = n
       \<and> displacement (uCurlR u) (uMaxDist u) (peelDistance u p) = (0, 0)
       \<and> rotationAngle (uCurlR u) (uMaxDist u) (peelDistance u p) = 0"
  using assms
  by (auto simp add: beginVertex_def beginNormal_def displacement_def rotationAngle_def Let_def)

theorem undisturbed_before_peel_witness:
  "peelDistance \<lparr>uPeel = 1/2, uCurlR = 3/25, uPeelNormal = vec 1 0 0, uFlatDir = vec 0 0 1,
                  uPeelEdge = 0, uMaxDist = 2\<rparr> (vec (3/2) 0 0) \<le> 0
   \<and> beginVertex \<lparr>uPeel = 1/2, uCurlR = 3/25, uPeelNormal = vec 1 0 0, uFlatDir = vec 0 0 1,
                  uPeelEdge = 0, uMaxDist = 2\<rparr> (vec (3/2) 0 0) = vec (3/2) 0 0
   \<and> beginNormal \<lparr>uPeel = 1/2, uCurlR = 3/25, uPeelNormal = vec 1 0 0, uFlatDir = vec 0 0 1,
                  uPeelEdge = 0, uMaxDist = 2\<rparr> (vec (3/2) 0 0) (vec 0 0 1) = vec 0 0 1"
  using undisturbed_before_peel
    [of "\<lparr>uPeel = 1/2, uCurlR = 3/25, uPeelNormal = vec 1 0 0, uFlatDir = vec 0 0 1,
          uPeelEdge = 0, uMaxDist = 2\<rparr>" "vec (3/2) 0 0" "vec 0 0 1"]
  by (simp add: peelDistance_def vdot_def vec_def)

subsection \<open>Smoothness at the peel line\<close>

lemma curl_dN_deriv: "R \<noteq> 0 \<Longrightarrow> (curl_dN R has_real_derivative (1 - cos (s / R))) (at s)"
  unfolding curl_dN_def Let_def
  by (auto intro!: derivative_eq_intros)

lemma curl_dF_deriv: "R \<noteq> 0 \<Longrightarrow> (curl_dF R has_real_derivative (sin (s / R))) (at s)"
  unfolding curl_dF_def Let_def
  by (auto intro!: derivative_eq_intros)

lemma piecewise_deriv_zero:
  fixes g :: "real \<Rightarrow> real"
  assumes g: "(g has_real_derivative 0) (at 0)" and g0: "g 0 = 0"
  shows "((\<lambda>s. if 0 < s then g s else 0) has_real_derivative 0) (at 0)"
proof -
  have "(\<lambda>h. g h / h) \<midarrow>0\<rightarrow> 0"
    using g g0 by (simp add: has_field_derivative_iff)
  then have "(\<lambda>h. (if 0 < h then g h else 0) / h) \<midarrow>0\<rightarrow> 0"
  proof (rule tendsto_0_le [where K = 1])
    show "\<forall>\<^sub>F h in at 0. norm ((if 0 < h then g h else 0) / h) \<le> norm (g h / h) * 1"
      by (rule always_eventually) (auto simp: zero_le_divide_iff divide_le_0_iff)
  qed
  then show ?thesis
    by (simp add: has_field_derivative_iff)
qed

lemma piecewise_deriv_pos:
  fixes g :: "real \<Rightarrow> real"
  assumes g: "(g has_real_derivative D) (at s)" and s: "0 < s"
  shows "((\<lambda>s. if 0 < s then g s else 0) has_real_derivative D) (at s)"
proof -
  have "eventually (\<lambda>x. 0 < x) (nhds s)"
    using s eventually_nhds_in_open [of "{0<..}" s] by simp
  then have "eventually (\<lambda>x. (if 0 < x then g x else 0) = g x) (nhds s)"
    by (rule eventually_mono) simp
  then show ?thesis
    using g by (simp add: DERIV_cong_ev [OF refl _ refl])
qed


lemma piecewise_deriv_neg:
  fixes g :: "real \<Rightarrow> real"
  assumes s: "s < 0"
  shows "((\<lambda>s. if 0 < s then g s else 0) has_real_derivative 0) (at s)"
proof -
  have "eventually (\<lambda>x. x < 0) (nhds s)"
    using s eventually_nhds_in_open [of "{..<0}" s] by simp
  then have "eventually (\<lambda>x. (if 0 < x then g x else 0) = (\<lambda>_. 0) x) (nhds s)"
    by (rule eventually_mono) simp
  then show ?thesis
    by (simp add: DERIV_cong_ev [OF refl _ refl])
qed


lemma curl_dN_zero: "curl_dN R 0 = 0" by (simp add: curl_dN_def)
lemma curl_dF_zero: "curl_dF R 0 = 0" by (simp add: curl_dF_def)

lemma piecewise_deriv:
  fixes g g' :: "real \<Rightarrow> real"
  assumes g: "\<And>s. (g has_real_derivative g' s) (at s)" and g0: "g 0 = 0" and g'0: "g' 0 = 0"
  shows "((\<lambda>s. if 0 < s then g s else 0) has_real_derivative (if 0 < s then g' s else 0)) (at s)"
proof -
  consider "0 < s" | "s = 0" | "s < 0" by linarith
  then show ?thesis
  proof cases
    case 1 then show ?thesis using piecewise_deriv_pos [OF g] by simp
  next
    case 2 then show ?thesis using piecewise_deriv_zero [of g] g [of 0] g0 g'0 by simp
  next
    case 3 then show ?thesis using piecewise_deriv_neg [of s g] by simp
  qed
qed

lemma piecewise_cont:
  fixes h :: "real \<Rightarrow> real"
  assumes h: "isCont h 0" and h0: "h 0 = 0"
  shows "isCont (\<lambda>s. if 0 < s then h s else 0) 0"
proof -
  have "h \<midarrow>0\<rightarrow> 0" using h h0 by (simp add: isCont_def)
  then have "(\<lambda>s. if 0 < s then h s else 0) \<midarrow>0\<rightarrow> 0"
  proof (rule tendsto_0_le [where K = 1])
    show "\<forall>\<^sub>F s in at 0. norm (if 0 < s then h s else 0) \<le> norm (h s) * 1"
      by (rule always_eventually) simp
  qed
  then show ?thesis by (simp add: isCont_def)
qed

text \<open>
  C2. For every positive curl radius the two displacement components, as functions of
  the signed peel distance, are continuous at 0 with value 0 there, are differentiable
  at every distance, and their derivatives (\<open>1 - cos (s / R)\<close> and \<open>sin (s / R)\<close> inside
  the curled region, 0 outside) are continuous at 0 as well: displacement and slope of
  the curled region meet those of the undisturbed region.
\<close>

theorem curl_continuous_at_peel_line:
  assumes R: "0 < R"
  shows "isCont (\<lambda>s. fst (displacement R M s)) 0
       \<and> isCont (\<lambda>s. snd (displacement R M s)) 0
       \<and> fst (displacement R M 0) = 0 \<and> snd (displacement R M 0) = 0
       \<and> (\<forall>s. ((\<lambda>s. fst (displacement R M s)) has_real_derivative
                 (if 0 < s \<and> 0 < M then 1 - cos (s / R) else 0)) (at s))
       \<and> (\<forall>s. ((\<lambda>s. snd (displacement R M s)) has_real_derivative
                 (if 0 < s \<and> 0 < M then sin (s / R) else 0)) (at s))
       \<and> isCont (\<lambda>s. if 0 < s \<and> 0 < M then 1 - cos (s / R) else 0) 0
       \<and> isCont (\<lambda>s. if 0 < s \<and> 0 < M then sin (s / R) else 0) 0"
proof (cases "0 < M")
  case False
  then show ?thesis by (simp add: displacement_def)
next
  case True
  have R0: "R \<noteq> 0" using R by simp
  have dN: "((\<lambda>s. if 0 < s then curl_dN R s else 0) has_real_derivative
               (if 0 < s then 1 - cos (s / R) else 0)) (at s)" for s
    by (rule piecewise_deriv [where g' = "\<lambda>s. 1 - cos (s / R)"])
       (simp_all add: curl_dN_deriv [OF R0] curl_dN_zero)
  have dF: "((\<lambda>s. if 0 < s then curl_dF R s else 0) has_real_derivative
               (if 0 < s then sin (s / R) else 0)) (at s)" for s
    by (rule piecewise_deriv [where g' = "\<lambda>s. sin (s / R)"])
       (simp_all add: curl_dF_deriv [OF R0] curl_dF_zero)
  have cN: "isCont (\<lambda>s. if 0 < s then 1 - cos (s / R) else 0) 0"
    by (rule piecewise_cont) (auto intro!: continuous_intros simp: R0)
  have cF: "isCont (\<lambda>s. if 0 < s then sin (s / R) else 0) 0"
    by (rule piecewise_cont) (auto intro!: continuous_intros simp: R0)
  have fN: "(\<lambda>s. fst (displacement R M s)) = (\<lambda>s. if 0 < s then curl_dN R s else 0)"
    using True by (auto simp: displacement_def)
  have fF: "(\<lambda>s. snd (displacement R M s)) = (\<lambda>s. if 0 < s then curl_dF R s else 0)"
    using True by (auto simp: displacement_def)
  show ?thesis
    unfolding fN fF using True dN dF cN cF DERIV_isCont [OF dN [of 0]] DERIV_isCont [OF dF [of 0]]
    by (simp add: displacement_def)
qed

theorem curl_continuous_witness:
  "(0::real) < 3/25 \<and> isCont (\<lambda>s. fst (displacement (3/25) 1 s)) 0
   \<and> ((\<lambda>s. snd (displacement (3/25) 1 s)) has_real_derivative 0) (at 0)"
proof -
  have pos: "(0::real) < 3/25" by simp
  note law = curl_continuous_at_peel_line [OF pos, of 1]
  from law have "((\<lambda>s. snd (displacement (3/25) 1 s)) has_real_derivative
      (if (0::real) < 0 \<and> (0::real) < 1 then sin (0 / (3/25)) else 0)) (at 0)"
    by blast
  with law show ?thesis by simp
qed

subsection \<open>Growth inside the curled region\<close>

lemma curl_dN_mono:
  assumes R: "0 < R" and le: "s1 \<le> s2"
  shows "curl_dN R s1 \<le> curl_dN R s2"
proof (rule DERIV_nonneg_imp_nondecreasing [OF le])
  fix x
  have "R \<noteq> 0" using R by simp
  then have "(curl_dN R has_real_derivative (1 - cos (x / R))) (at x)"
    by (rule curl_dN_deriv)
  then show "\<exists>y. (curl_dN R has_real_derivative y) (at x) \<and> 0 \<le> y"
    by (intro exI [of _ "1 - cos (x / R)"]) simp
qed

lemma curl_dF_mono:
  assumes R: "0 < R" and pos: "0 \<le> s1" and le: "s1 \<le> s2" and half: "s2 \<le> pi * R"
  shows "curl_dF R s1 \<le> curl_dF R s2"
proof -
  have "0 \<le> s1 / R" "s1 / R \<le> s2 / R" "s2 / R \<le> pi"
    using R pos le half by (simp_all add: divide_right_mono pos_divide_le_eq)
  then have "cos (s2 / R) \<le> cos (s1 / R)"
    by (rule cos_monotone_0_pi_le)
  then show ?thesis
    using R by (simp add: curl_dF_def)
qed

text \<open>
  C3, as the code has it. For every positive curl radius and \<open>0 < s1 \<le> s2\<close>, the
  displacement along \<^verbatim>\<open>uPeelNormal\<close> and the rotation angle do not decrease from \<open>s1\<close> to
  \<open>s2\<close>; the displacement along \<^verbatim>\<open>uFlatDir\<close> does not decrease as long as \<open>s2 \<le> pi * R\<close>,
  the first half turn of the roll.
\<close>

theorem curl_monotone:
  assumes "0 < R" and "0 < s1" and "s1 \<le> s2"
  shows "fst (displacement R M s1) \<le> fst (displacement R M s2)
       \<and> rotationAngle R M s1 \<le> rotationAngle R M s2
       \<and> (s2 \<le> pi * R \<longrightarrow> snd (displacement R M s1) \<le> snd (displacement R M s2))"
  using assms curl_dN_mono [of R s1 s2] curl_dF_mono [of R s1 s2]
  by (simp add: displacement_def rotationAngle_def divide_right_mono)

theorem curl_monotone_witness:
  "(0::real) < 3/25 \<and> (0::real) < 1/10 \<and> (1/10::real) \<le> 1/5
   \<and> fst (displacement (3/25) 1 (1/10)) \<le> fst (displacement (3/25) 1 (1/5))
   \<and> rotationAngle (3/25) 1 (1/10) \<le> rotationAngle (3/25) 1 (1/5)
   \<and> (1/5::real) \<le> pi * (3/25)
   \<and> snd (displacement (3/25) 1 (1/10)) \<le> snd (displacement (3/25) 1 (1/5))"
proof -
  have "(1/5::real) \<le> pi * (3/25)"
    using pi_ge_two by simp
  then show ?thesis
    using curl_monotone [of "3/25" "1/10" "1/5" 1] by simp
qed

text \<open>
  Beyond the half turn the displacement along \<^verbatim>\<open>uFlatDir\<close> comes back down: with the
  curl radius 0.12 of the source it is \<open>2 * 0.12\<close> at \<open>s = 0.12 * pi\<close> and 0 again at
  \<open>s = 0.24 * pi\<close>.
\<close>

theorem flat_displacement_not_monotone:
  "(0::real) < 3/25 \<and> (0::real) < 3/25 * pi \<and> (3/25 * pi::real) \<le> 6/25 * pi
   \<and> \<not> snd (displacement (3/25) 1 (3/25 * pi)) \<le> snd (displacement (3/25) 1 (6/25 * pi))"
  by (simp add: displacement_def curl_dF_def)


section \<open>Evaluating the worked scenario\<close>

lemma sqrt_less_8: "sqrt x < 8 \<longleftrightarrow> x < 64"
  using real_sqrt_less_iff [of x 64] real_sqrt_abs [of 8] by simp

lemma sqrt_drags: "sqrt (1 / 10000) = 1 / 100" "sqrt (9 / 100) = 3 / 10"
  using real_sqrt_abs [of "1/100"] real_sqrt_abs [of "3/10"] by (simp_all add: power2_eq_square)

lemma demo_axes:
  "lengthAxisOf (boxSize demoTape) = X" "widthAxisOf (boxSize demoTape) = Y"
  "flatAxisOf (boxSize demoTape) = Z"
  "lengthAxisOf (boxSize stripTape) = X" "widthAxisOf (boxSize stripTape) = Y"
  "flatAxisOf (boxSize stripTape) = Z"
  "lengthAxisOf (boxSize flatTape) = X" "widthAxisOf (boxSize flatTape) = Y"
  "flatAxisOf (boxSize flatTape) = Z"
  by (simp_all add: lengthAxisOf_def widthAxisOf_def flatAxisOf_def sortedDims_def js_sort_def
        byLenDesc_def boxSize_def demoTape_def stripTape_def flatTape_def vsub_def vec_def)

lemma demo_tape:
  "bmin demoTape = \<lparr>vx = - 1, vy = - 1/4, vz = - 1/100\<rparr>"
  "bmax demoTape = \<lparr>vx = 1, vy = 1/4, vz = 1/100\<rparr>"
  "bmin stripTape = \<lparr>vx = - 1, vy = 0, vz = 0\<rparr>"
  "bmax stripTape = \<lparr>vx = 1, vy = 0, vz = 0\<rparr>"
  "bmin flatTape = \<lparr>vx = - 1, vy = - 1/4, vz = 0\<rparr>"
  "bmax flatTape = \<lparr>vx = 1, vy = 1/4, vz = 0\<rparr>"
  by (simp_all add: demoTape_def stripTape_def flatTape_def vec_def)

lemmas demo_eval =
  demoSim_def demoPeel_def demoFall_def demoGesture_def demoPress_def demoLock_def demoDrag_def
  demoPointer_def loadedSim_def demo_axes demo_tape demoBanana_def pointBanana_def
  emptyBanana_def jsBox_def jsVec_def sqrt_less_8 sqrt_drags Let_def
  onDown_def onMove_def onUp_def lockDirection_def chooseAxis_def chooseSign_def
  dragPeel_def dragDistance_def sensitivity_def fallThreshold_def fallRatio_def js_sub_def
  tear_def animate_def animatePeel_def animateBanana_def lerp_def
  vec_def vsub_def lengthSq_def

text \<open>After the first move of \<open>demoPeel\<close> the direction is locked on \<open>(x, +1)\<close>.\<close>

lemma demo_locked:
  "run demoSim (take 2 demoPeel) =
     (demoSim\<lparr>isDragging := True, peelConfigured := True, isDeterminingDir := False,
        dragStartX := 100, dragStartY := 100, dragLastX := 110, dragLastY := 100,
        dragStartLocalHit := Some (vec (- 4/5) 0 0),
        curPeelAxis := Some X, curPeelSign := 1,
        tapeUniforms := (tapeUniforms demoSim)
          \<lparr>uPeelNormal := vec 1 0 0, uPeelEdge := - 1, uMaxDist := 2\<rparr>,
        bananaFallThreshold := Fin (4/5), peelNode := True\<rparr>, [])"
  by (simp add: demo_eval)

text \<open>
  After \<open>demoGesture\<close> the target progress is 0.035, the eased progress 0.00525, and the
  second press has put the session back into the determination of the direction.
\<close>

lemma demo_gesture:
  "run demoSim demoGesture =
     (demoSim\<lparr>isDragging := True, peelConfigured := False, isDeterminingDir := True,
        dragStartX := 500, dragStartY := 100, dragLastX := 500, dragLastY := 100,
        dragStartLocalHit := Some (vec (4/5) 0 0),
        targetPeelProgress := 7/200, currentPeelProgress := 21/4000,
        curPeelAxis := Some X, curPeelSign := 1,
        tapeUniforms := (tapeUniforms demoSim)
          \<lparr>uPeel := 21/4000, uPeelNormal := vec 1 0 0, uPeelEdge := - 1, uMaxDist := 2\<rparr>,
        bananaFallThreshold := Fin (4/5), peelNode := False\<rparr>, [])"
  by (simp add: demo_eval)

text \<open>
  After \<open>demoFall\<close> the tape is torn, the wrapped object has fallen below the altitude
  \<open>-2\<close>, has bounced three times and is about to reach the floor again.
\<close>

lemma demo_fall:
  "run demoSim demoFall =
     (demoSim\<lparr>isDragging := False, peelConfigured := True, isDeterminingDir := False,
        dragStartX := 100, dragStartY := 100, dragLastX := 410, dragLastY := 100,
        dragStartLocalHit := Some (vec (- 4/5) 0 0),
        targetPeelProgress := 21/20,
        currentPeelProgress := 101540680679144763 / 102400000000000000,
        curPeelAxis := Some X, curPeelSign := 1,
        tapeUniforms := (tapeUniforms demoSim)
          \<lparr>uPeel := 101540680679144763 / 102400000000000000,
           uPeelNormal := vec 1 0 0, uPeelEdge := - 1, uMaxDist := 2\<rparr>,
        bananaFallThreshold := Fin (4/5), peelNode := False,
        bananaFalling := True, isTorn := True, transitionFired := True,
        bananaPosY := - (17980939 / 6000000), bananaRotX := 59 / 60 + pi / 2,
        fallVel := - (138817 / 1200000), bananaRotVelX := - (1 / 4)\<rparr>,
      [RipSound, TransitionCallback, ThudSound, ThudSound, ThudSound])"
  by (simp add: demo_eval eval_nat_numeral)

section \<open>The fall threshold\<close>



lemma js_of_defined: "js_of b \<noteq> NaN"
  by (cases b) simp_all



lemma fallRatio_extent:
  "fallRatio sg ax bb tp span' = js_div (projectedExtent sg ax bb tp) (Fin span')"
  by (simp add: fallRatio_def projectedExtent_def)





























text \<open>
  With a span of zero and a projected extent of zero the quotient is \<^verbatim>\<open>0 / 0\<close> and the
  clamp returns \<^verbatim>\<open>NaN\<close>. A lock on such an axis needs a press that hits a proxy
  surface without area.
\<close>

lemma fallThreshold_undefined:
  assumes "projectedExtent sg ax bb tp = Fin 0"
  shows "fallThreshold sg ax bb tp 0 = NaN"
  using assms by (simp add: fallThreshold_def fallRatio_extent)

section \<open>Locking the direction\<close>

lemma onMove_lock:
  assumes "isDragging s" and "\<not> isTorn s" and "isDeterminingDir s"
    and "dragStartLocalHit s = Some start"
    and "\<not> sqrt ((clientX e - dragStartX s) * (clientX e - dragStartX s)
                + (clientY e - dragStartY s) * (clientY e - dragStartY s)) < 8"
  shows "onMove s e = lockDirection s e start"
  using assms by (simp add: onMove_def Let_def)

lemma lockDirection_pair:
  "curPeelAxis (lockDirection s e start) = Some (chooseAxis s e start)"
  "curPeelSign (lockDirection s e start) = chooseSign s start (chooseAxis s e start)"
  by (auto simp add: lockDirection_def Let_def)

lemma lockDirection_progress:
  "(curPeelAxis (lockDirection s e start), curPeelSign (lockDirection s e start))
      \<noteq> (curPeelAxis s, curPeelSign s) \<Longrightarrow>
   targetPeelProgress (lockDirection s e start) = 0
   \<and> currentPeelProgress (lockDirection s e start) = 0"
  "(curPeelAxis (lockDirection s e start), curPeelSign (lockDirection s e start))
      = (curPeelAxis s, curPeelSign s) \<Longrightarrow>
   targetPeelProgress (lockDirection s e start) = targetPeelProgress s
   \<and> currentPeelProgress (lockDirection s e start) = currentPeelProgress s"
  by (auto simp add: lockDirection_def Let_def)

lemma unit_drag:
  "vsub (vadd h (setAxis (vec 0 0 0) a 1)) h = setAxis (vec 0 0 0) a 1"
  by (cases a) (simp_all add: vsub_def vadd_def vec_def)

lemma unit_lengthSq: "lengthSq (setAxis (vec 0 0 0) a 1) = 1"
  by (cases a) (simp_all add: lengthSq_def vec_def)

lemma unit_getAxis: "getAxis (setAxis (vec 0 0 0) a (1::real)) b = (if a = b then 1 else 0)"
  by (cases a; cases b) (simp_all add: vec_def)

lemma chooseAxis_along:
  assumes "lengthAxis s \<noteq> widthAxis s" and "a = lengthAxis s \<or> a = widthAxis s"
  shows "chooseAxis s (e\<lparr>hitPoint := Some (vadd h (setAxis (vec 0 0 0) a 1))\<rparr>) h = a"
  using assms by (auto simp add: chooseAxis_def unit_drag unit_lengthSq unit_getAxis Let_def)

text \<open>
  C6. A move that ends the determination of the direction locks the pair made of the
  chosen axis and the chosen sign. When this pair differs from the pair locked before,
  the target progress and the eased progress are both 0 afterwards; when it is the same
  pair, both keep their values. In both cases the peel is configured afterwards.
\<close>

theorem relock_resets_progress:
  assumes "isDragging s" and "\<not> isTorn s" and "isDeterminingDir s"
    and "dragStartLocalHit s = Some start"
    and "\<not> sqrt ((clientX e - dragStartX s) * (clientX e - dragStartX s)
                + (clientY e - dragStartY s) * (clientY e - dragStartY s)) < 8"
  shows "curPeelAxis (onMove s e) = Some (chooseAxis s e start)
       \<and> curPeelSign (onMove s e) = chooseSign s start (chooseAxis s e start)
       \<and> ((curPeelAxis (onMove s e), curPeelSign (onMove s e)) \<noteq> (curPeelAxis s, curPeelSign s)
            \<longrightarrow> targetPeelProgress (onMove s e) = 0 \<and> currentPeelProgress (onMove s e) = 0)
       \<and> ((curPeelAxis (onMove s e), curPeelSign (onMove s e)) = (curPeelAxis s, curPeelSign s)
            \<longrightarrow> targetPeelProgress (onMove s e) = targetPeelProgress s
              \<and> currentPeelProgress (onMove s e) = currentPeelProgress s)
       \<and> peelConfigured (onMove s e) \<and> \<not> isDeterminingDir (onMove s e)
       \<and> isDragging (onMove s e)"
  using assms by (auto simp add: onMove_def lockDirection_def Let_def)

text \<open>
  After \<open>demoGesture\<close> the pair \<open>(x, +1)\<close> is locked with target progress 0.035. A move
  from the press near the high end locks \<open>(x, -1)\<close> and both progress values are 0.
\<close>

theorem relock_resets_progress_witness:
  "targetPeelProgress (fst (run demoSim demoGesture)) = 7/200
   \<and> currentPeelProgress (fst (run demoSim demoGesture)) = 21/4000
   \<and> curPeelAxis (fst (run demoSim demoGesture)) = Some X
   \<and> curPeelSign (fst (run demoSim demoGesture)) = 1
   \<and> curPeelAxis (onMove (fst (run demoSim demoGesture))
          (demoPointer 480 100 (Some (vec (3/5) 0 0)))) = Some X
   \<and> curPeelSign (onMove (fst (run demoSim demoGesture))
          (demoPointer 480 100 (Some (vec (3/5) 0 0)))) = - 1
   \<and> targetPeelProgress (onMove (fst (run demoSim demoGesture))
          (demoPointer 480 100 (Some (vec (3/5) 0 0)))) = 0
   \<and> currentPeelProgress (onMove (fst (run demoSim demoGesture))
          (demoPointer 480 100 (Some (vec (3/5) 0 0)))) = 0"
  using relock_resets_progress [of "fst (run demoSim demoGesture)" "vec (4/5) 0 0"
      "demoPointer 480 100 (Some (vec (3/5) 0 0))"]
  by (simp add: demo_gesture) (simp add: demo_eval)

section \<open>The target progress\<close>

lemma onMove_target_cases:
  "targetPeelProgress (onMove s e) = targetPeelProgress s
   \<or> targetPeelProgress (onMove s e) = 0
   \<or> targetPeelProgress (onMove s e)
        = max 0 (min 1.05 (targetPeelProgress s + dragDistance s e * sensitivity e))"
  by (auto simp add: onMove_def dragPeel_def lockDirection_def Let_def split: option.splits)

lemma animatePeel_target: "targetPeelProgress (fst (animatePeel s)) = targetPeelProgress s"
  by (simp add: animatePeel_def tear_def Let_def)

lemma animateBanana_target: "targetPeelProgress (fst (animateBanana dt s)) = targetPeelProgress s"
  by (simp add: animateBanana_def Let_def)

lemma animate_target: "targetPeelProgress (fst (animate s delta)) = targetPeelProgress s"
  by (simp add: animate_def Let_def split_beta animatePeel_target animateBanana_target)

lemma step_targetInRange:
  assumes "targetInRange s"
  shows "targetInRange (fst (step s ev))"
proof (cases ev)
  case (Down e)
  then show ?thesis using assms
    by (auto simp add: targetInRange_def onDown_def split: option.splits)
next
  case (Move e)
  then show ?thesis using assms onMove_target_cases [of s e]
    by (auto simp add: targetInRange_def min_def max_def)
next
  case Up
  then show ?thesis using assms by (simp add: targetInRange_def onUp_def)
next
  case (Frame delta)
  then show ?thesis using assms by (simp add: targetInRange_def animate_target)
qed

lemma run_targetInRange:
  "targetInRange s \<Longrightarrow> targetInRange (fst (run s evs))"
proof (induction evs arbitrary: s)
  case Nil
  then show ?case by simp
next
  case (Cons ev evs)
  from Cons.prems have "targetInRange (fst (step s ev))"
    by (rule step_targetInRange)
  then have "targetInRange (fst (run (fst (step s ev)) evs))"
    by (rule Cons.IH)
  then show ?case
    by (simp add: split_beta)
qed

lemma step_phase:
  assumes "\<not> (peelConfigured s \<and> isDeterminingDir s)"
  shows "\<not> (peelConfigured (fst (step s ev)) \<and> isDeterminingDir (fst (step s ev)))"
proof (cases ev)
  case (Down e)
  then show ?thesis using assms
    by (auto simp add: onDown_def split: option.splits if_splits)
next
  case (Move e)
  then show ?thesis using assms
    by (auto simp add: onMove_def lockDirection_def dragPeel_def Let_def
          split: option.splits if_splits)
next
  case Up
  then show ?thesis using assms by (simp add: onUp_def)
next
  case (Frame delta)
  then show ?thesis using assms
    by (auto simp add: animate_def animatePeel_def animateBanana_def tear_def Let_def
          split: if_splits)
qed

lemma run_phase:
  "\<not> (peelConfigured s \<and> isDeterminingDir s) \<Longrightarrow>
     \<not> (peelConfigured (fst (run s evs)) \<and> isDeterminingDir (fst (run s evs)))"
proof (induction evs arbitrary: s)
  case Nil
  then show ?case by simp
next
  case (Cons ev evs)
  from Cons.prems have "\<not> (peelConfigured (fst (step s ev)) \<and> isDeterminingDir (fst (step s ev)))"
    by (rule step_phase)
  from Cons.IH [OF this] show ?case
    by (simp add: split_beta)
qed

text \<open>
  C7. A pointer move that arrives during a drag, with the peel configured and the tape
  not torn, sets the target progress to its previous value plus the normalised drag
  distance times the sensitivity, clamped into \<open>[0, 1.05]\<close>; with sensitivity 3.5, a
  drag distance of 0.3 from progress 0 gives 1.05. The target progress of the loaded
  state is in \<open>[0, 1.05]\<close> and every handler keeps it there, over every sequence of
  events (of a window of positive size). The peel is never configured while the
  direction is still being determined, in any state reached from the loaded state.
\<close>

theorem target_progress_clamped:
  assumes "0 < innerWidth e" and "0 < innerHeight e"
    and "isDragging s" and "\<not> isTorn s" and "\<not> isDeterminingDir s" and "peelConfigured s"
  shows "targetPeelProgress (onMove s e)
           = max 0 (min 1.05 (targetPeelProgress s + dragDistance s e * sensitivity e))
       \<and> targetInRange (onMove s e)
       \<and> (sensitivity e = 3.5 \<and> dragDistance s e = 0.3 \<and> targetPeelProgress s = 0
            \<longrightarrow> targetPeelProgress (onMove s e) = 1.05)
       \<and> (\<forall>s0 ev. targetInRange s0 \<and> viewportOk ev \<longrightarrow> targetInRange (fst (step s0 ev)))
       \<and> (\<forall>s0 evs. targetInRange s0 \<and> list_all viewportOk evs
            \<longrightarrow> targetInRange (fst (run s0 evs)))
       \<and> (\<forall>tape banana z. targetInRange (loadedSim tape banana z))
       \<and> (\<forall>tape banana z evs.
            peelConfigured (fst (run (loadedSim tape banana z) evs))
            \<longrightarrow> \<not> isDeterminingDir (fst (run (loadedSim tape banana z) evs)))"
proof -
  have upd: "targetPeelProgress (onMove s e)
      = max 0 (min 1.05 (targetPeelProgress s + dragDistance s e * sensitivity e))"
    using assms by (simp add: onMove_def dragPeel_def)
  have range: "targetInRange (onMove s e)"
    unfolding targetInRange_def upd by (simp add: min_def max_def)
  have example: "sensitivity e = 3.5 \<and> dragDistance s e = 0.3 \<and> targetPeelProgress s = 0
      \<longrightarrow> targetPeelProgress (onMove s e) = 1.05"
  proof (intro impI, elim conjE)
    assume given: "sensitivity e = 3.5" "dragDistance s e = 0.3" "targetPeelProgress s = 0"
    show "targetPeelProgress (onMove s e) = 1.05"
      unfolding upd given by simp
  qed
  have init: "targetInRange (loadedSim tape banana z)" for tape banana z
    by (simp add: targetInRange_def loadedSim_def Let_def)
  have phase: "peelConfigured (fst (run (loadedSim tape banana z) evs))
      \<longrightarrow> \<not> isDeterminingDir (fst (run (loadedSim tape banana z) evs))" for tape banana z evs
    using run_phase [of "loadedSim tape banana z" evs]
    by (simp add: loadedSim_def Let_def)
  show ?thesis
    using upd range example init phase step_targetInRange run_targetInRange by blast
qed

theorem target_progress_clamped_witness:
  "peelConfigured (fst (run demoSim (take 2 demoPeel)))
   \<and> targetPeelProgress (fst (run demoSim (take 2 demoPeel))) = 0
   \<and> sensitivity demoDrag = 3.5
   \<and> dragDistance (fst (run demoSim (take 2 demoPeel))) demoDrag = 0.3
   \<and> targetPeelProgress (onMove (fst (run demoSim (take 2 demoPeel))) demoDrag) = 1.05
   \<and> list_all viewportOk demoFall
   \<and> targetInRange (fst (run demoSim demoFall))"
proof -
  let ?s = "fst (run demoSim (take 2 demoPeel))"
  have fields: "isDragging ?s" "\<not> isTorn ?s" "\<not> isDeterminingDir ?s" "peelConfigured ?s"
    "targetPeelProgress ?s = 0" "dragLastX ?s = 110" "dragLastY ?s = 100"
    by (simp_all add: demo_locked) (simp_all add: demoSim_def loadedSim_def Let_def)
  have ev: "0 < innerWidth demoDrag" "0 < innerHeight demoDrag" "sensitivity demoDrag = 3.5"
    by (simp_all add: demoDrag_def demoPointer_def sensitivity_def)
  have dist: "dragDistance ?s demoDrag = 0.3"
    by (simp add: dragDistance_def fields demoDrag_def demoPointer_def sqrt_drags)
  have ok: "list_all viewportOk demoFall"
    by (simp add: demoFall_def demoPeel_def demoPress_def demoLock_def demoDrag_def
          demoPointer_def list_all_iff)
  note law = target_progress_clamped [OF ev(1,2) fields(1-4)]
  have "targetInRange demoSim"
    using law by (simp add: demoSim_def)
  with law ok have "targetInRange (fst (run demoSim demoFall))"
    by blast
  moreover have "targetPeelProgress (onMove ?s demoDrag) = 1.05"
    using law ev(3) dist fields(5) by simp
  ultimately show ?thesis
    using fields ev dist ok by simp
qed

section \<open>A press on the surface\<close>

lemma relock_possible:
  assumes axes: "lengthAxis s \<noteq> widthAxis s"
    and det: "isDragging s" "\<not> isTorn s" "isDeterminingDir s" "dragStartLocalHit s = Some h"
  shows "\<exists>e. (curPeelAxis (onMove s e), curPeelSign (onMove s e)) \<noteq> (curPeelAxis s, curPeelSign s)
           \<and> targetPeelProgress (onMove s e) = 0 \<and> currentPeelProgress (onMove s e) = 0"
proof -
  define a where "a = (if curPeelAxis s = Some (lengthAxis s) then widthAxis s else lengthAxis s)"
  define e where "e = \<lparr>clientX = dragStartX s + 8, clientY = dragStartY s,
      hitPoint = Some (vadd h (setAxis (vec 0 0 0) a 1)),
      innerWidth = 1, innerHeight = 1, clientWidth = 1\<rparr>"
  have a: "a = lengthAxis s \<or> a = widthAxis s" and differs: "curPeelAxis s \<noteq> Some a"
    using axes by (auto simp add: a_def)
  have "chooseAxis s (e\<lparr>hitPoint := Some (vadd h (setAxis (vec 0 0 0) a 1))\<rparr>) h = a"
    using axes a by (rule chooseAxis_along)
  then have chosen: "chooseAxis s e h = a"
    by (simp add: e_def)
  have far: "\<not> sqrt ((clientX e - dragStartX s) * (clientX e - dragStartX s)
                + (clientY e - dragStartY s) * (clientY e - dragStartY s)) < 8"
    by (simp add: e_def)
  have move: "onMove s e = lockDirection s e h"
    using det far by (rule onMove_lock)
  have pair: "(curPeelAxis (lockDirection s e h), curPeelSign (lockDirection s e h))
      \<noteq> (curPeelAxis s, curPeelSign s)"
    using differs chosen by (simp add: lockDirection_pair)
  from lockDirection_progress(1) [OF pair] pair show ?thesis
    unfolding move [symmetric] by blast
qed

text \<open>
  C10. A press that hits the proxy surface while the tape is loaded and not torn:
  if the eased progress is above 0.05, the session drags with the peel configured and
  the direction determined, nothing else changes (axis, sign, progress values,
  threshold and uniforms are those of before), the result does not depend on the point
  that was hit, and every following move is a drag step; otherwise the session
  determines the direction from the point that was hit, the next move of at least 8
  pixels locks a direction, and (the length and width axes being different) some such
  move locks a pair other than the previous one and leaves both progress values at 0.
\<close>

theorem press_resumes_or_redetermines:
  assumes "\<not> isTorn s" and "tapeMesh s" and "hitPoint e = Some h"
  shows "(0.05 < currentPeelProgress s \<longrightarrow>
            onDown s e = s\<lparr>isDragging := True, isDeterminingDir := False, peelConfigured := True,
                            dragLastX := clientX e, dragLastY := clientY e, peelNode := True\<rparr>
          \<and> (\<forall>h'. onDown s (e\<lparr>hitPoint := Some h'\<rparr>) = onDown s e)
          \<and> (\<forall>e'. onMove (onDown s e) e' = dragPeel (onDown s e) e'))
       \<and> (currentPeelProgress s \<le> 0.05 \<longrightarrow>
            onDown s e = s\<lparr>isDragging := True, isDeterminingDir := True, peelConfigured := False,
                            dragStartX := clientX e, dragStartY := clientY e,
                            dragLastX := clientX e, dragLastY := clientY e,
                            dragStartLocalHit := Some h\<rparr>
          \<and> (\<forall>e'. \<not> sqrt ((clientX e' - clientX e) * (clientX e' - clientX e)
                        + (clientY e' - clientY e) * (clientY e' - clientY e)) < 8
                 \<longrightarrow> onMove (onDown s e) e' = lockDirection (onDown s e) e' h)
          \<and> (lengthAxis s \<noteq> widthAxis s \<longrightarrow>
               (\<exists>e'. (curPeelAxis (onMove (onDown s e) e'), curPeelSign (onMove (onDown s e) e'))
                        \<noteq> (curPeelAxis s, curPeelSign s)
                     \<and> targetPeelProgress (onMove (onDown s e) e') = 0
                     \<and> currentPeelProgress (onMove (onDown s e) e') = 0)))"
proof (cases "0.05 < currentPeelProgress s")
  case True
  with assms show ?thesis
    by (auto simp add: onDown_def onMove_def)
next
  case False
  let ?s' = "s\<lparr>isDragging := True, isDeterminingDir := True, peelConfigured := False,
                dragStartX := clientX e, dragStartY := clientY e,
                dragLastX := clientX e, dragLastY := clientY e,
                dragStartLocalHit := Some h\<rparr>"
  have down: "onDown s e = ?s'"
    using assms False by (simp add: onDown_def)
  have next_move: "\<not> sqrt ((clientX e' - clientX e) * (clientX e' - clientX e)
                        + (clientY e' - clientY e) * (clientY e' - clientY e)) < 8
      \<longrightarrow> onMove (onDown s e) e' = lockDirection (onDown s e) e' h" for e'
    using assms unfolding down by (simp add: onMove_def)
  have other: "\<exists>e'. (curPeelAxis (onMove ?s' e'), curPeelSign (onMove ?s' e'))
                        \<noteq> (curPeelAxis ?s', curPeelSign ?s')
                     \<and> targetPeelProgress (onMove ?s' e') = 0
                     \<and> currentPeelProgress (onMove ?s' e') = 0"
    if "lengthAxis s \<noteq> widthAxis s"
    by (rule relock_possible) (use that assms in simp_all)
  show ?thesis
    using False down next_move other unfolding down by auto
qed

text \<open>
  In the scenario: after \<open>demoGesture\<close> without its last press the eased progress is
  0.00525, and the press determines the direction anew; after \<open>demoPeel\<close>, a frame and a
  release it is 0.1575, and the same press resumes the peel on the pair \<open>(x, +1)\<close>.
\<close>

theorem press_resumes_or_redetermines_witness:
  "currentPeelProgress (fst (run demoSim (take 5 demoGesture))) = 21/4000
   \<and> isDeterminingDir (onDown (fst (run demoSim (take 5 demoGesture)))
                         (demoPointer 500 100 (Some (vec (4/5) 0 0))))
   \<and> \<not> peelConfigured (onDown (fst (run demoSim (take 5 demoGesture)))
                         (demoPointer 500 100 (Some (vec (4/5) 0 0))))
   \<and> currentPeelProgress (fst (run demoSim (demoPeel @ [Frame (1 / 30), Up]))) = 63/400
   \<and> \<not> isDeterminingDir (onDown (fst (run demoSim (demoPeel @ [Frame (1 / 30), Up])))
                         (demoPointer 500 100 (Some (vec (4/5) 0 0))))
   \<and> peelConfigured (onDown (fst (run demoSim (demoPeel @ [Frame (1 / 30), Up])))
                         (demoPointer 500 100 (Some (vec (4/5) 0 0))))
   \<and> curPeelSign (onDown (fst (run demoSim (demoPeel @ [Frame (1 / 30), Up])))
                         (demoPointer 500 100 (Some (vec (4/5) 0 0)))) = 1"
proof -
  let ?a = "fst (run demoSim (take 5 demoGesture))"
  let ?b = "fst (run demoSim (demoPeel @ [Frame (1 / 30), Up]))"
  let ?e = "demoPointer 500 100 (Some (vec (4/5) 0 0))"
  have a: "\<not> isTorn ?a" "tapeMesh ?a" "currentPeelProgress ?a = 21/4000"
    by (simp_all add: demo_eval)
  have b: "\<not> isTorn ?b" "tapeMesh ?b" "currentPeelProgress ?b = 63/400" "curPeelSign ?b = 1"
    by (simp_all add: demo_eval)
  have e: "hitPoint ?e = Some (vec (4/5) 0 0)"
    by (simp add: demoPointer_def)
  from press_resumes_or_redetermines [OF a(1,2) e] a(3)
  have "isDeterminingDir (onDown ?a ?e) \<and> \<not> peelConfigured (onDown ?a ?e)"
    by simp
  moreover from press_resumes_or_redetermines [OF b(1,2) e] b(3,4)
  have "\<not> isDeterminingDir (onDown ?b ?e) \<and> peelConfigured (onDown ?b ?e)
      \<and> curPeelSign (onDown ?b ?e) = 1"
    by simp
  ultimately show ?thesis
    using a(3) b(3) by simp
qed

section \<open>The transition callback\<close>

lemma animatePeel_keeps:
  "transitionFired (fst (animatePeel s)) = transitionFired s"
  "settled (fst (animatePeel s)) = settled s"
  "bananaGroup (fst (animatePeel s)) = bananaGroup s"
  "bananaPosY (fst (animatePeel s)) = bananaPosY s"
  "bananaRotX (fst (animatePeel s)) = bananaRotX s"
  "fallVel (fst (animatePeel s)) = fallVel s"
  "bananaRotVelX (fst (animatePeel s)) = bananaRotVelX s"
  "TransitionCallback \<notin> set (snd (animatePeel s))"
  "ThudSound \<notin> set (snd (animatePeel s))"
  by (simp_all add: animatePeel_def tear_def Let_def)

lemma animatePeel_falling: "bananaFalling s \<Longrightarrow> bananaFalling (fst (animatePeel s))"
  by (simp add: animatePeel_def tear_def Let_def)

lemma animate_unfold:
  "animate s delta =
     (fst (animateBanana (min delta (1 / 30)) (fst (animatePeel s))),
      snd (animatePeel s) @ snd (animateBanana (min delta (1 / 30)) (fst (animatePeel s))))"
  by (simp add: animate_def Let_def split_beta)

lemma animateBanana_transition:
  "TransitionCallback \<in> set (snd (animateBanana dt s)) \<longleftrightarrow>
     bananaFalling s \<and> bananaGroup s \<and> \<not> settled s \<and> \<not> transitionFired s
     \<and> bananaPosY s + (fallVel s - 9.8 * dt) * dt < - 2"
  by (auto simp add: animateBanana_def Let_def)

lemma animateBanana_fired:
  "transitionFired (fst (animateBanana dt s)) \<longleftrightarrow>
     transitionFired s \<or> TransitionCallback \<in> set (snd (animateBanana dt s))"
  by (auto simp add: animateBanana_def Let_def)

lemma animateBanana_count:
  "count_list (snd (animateBanana dt s)) TransitionCallback =
     (if TransitionCallback \<in> set (snd (animateBanana dt s)) then 1 else 0)"
  by (auto simp add: animateBanana_def Let_def)

lemma animateBanana_falling:
  "bananaFalling (fst (animateBanana dt s)) = bananaFalling s"
  by (auto simp add: animateBanana_def Let_def)

lemma animateBanana_settled_fired:
  "settled (fst (animateBanana dt s)) \<Longrightarrow> settled s \<or> transitionFired (fst (animateBanana dt s))"
  by (auto simp add: animateBanana_def Let_def split: if_splits)

lemma animate_transition:
  "TransitionCallback \<in> set (snd (animate s delta)) \<longleftrightarrow>
     bananaFalling (fst (animatePeel s)) \<and> bananaGroup s \<and> \<not> settled s \<and> \<not> transitionFired s
     \<and> fallenPosY s delta < - 2"
  by (simp add: animate_unfold animatePeel_keeps animateBanana_transition fallenPosY_def Let_def)

lemma animate_fired:
  "transitionFired (fst (animate s delta)) \<longleftrightarrow>
     transitionFired s \<or> TransitionCallback \<in> set (snd (animate s delta))"
  by (simp add: animate_unfold animatePeel_keeps animateBanana_fired)

lemma animate_count:
  "count_list (snd (animate s delta)) TransitionCallback =
     (if TransitionCallback \<in> set (snd (animate s delta)) then 1 else 0)"
  using animatePeel_keeps(8) [of s]
  by (simp add: animate_unfold animatePeel_keeps animateBanana_count count_list_0_iff)

lemma step_transition_frame:
  "TransitionCallback \<in> set (snd (step s ev)) \<Longrightarrow> \<exists>delta. ev = Frame delta"
  by (cases ev) simp_all

lemma pointer_keeps_fired:
  "transitionFired (onDown s e) = transitionFired s"
  "transitionFired (onMove s e) = transitionFired s"
  "transitionFired (onUp s) = transitionFired s"
  "settled (onDown s e) = settled s"
  "settled (onMove s e) = settled s"
  "settled (onUp s) = settled s"
  by (simp_all add: onDown_def onMove_def onUp_def lockDirection_def dragPeel_def Let_def
        split: option.splits)

lemma step_fired:
  "transitionFired (fst (step s ev)) \<longleftrightarrow>
     transitionFired s \<or> TransitionCallback \<in> set (snd (step s ev))"
  by (cases ev) (simp_all add: pointer_keeps_fired animate_fired)

lemma step_count:
  "count_list (snd (step s ev)) TransitionCallback =
     (if TransitionCallback \<in> set (snd (step s ev)) then 1 else 0)"
  by (cases ev) (simp_all add: animate_count)

lemma step_not_again:
  "transitionFired s \<Longrightarrow> TransitionCallback \<notin> set (snd (step s ev))"
  by (cases ev) (simp_all add: animate_transition)

lemma run_unfold:
  "run s (ev # evs) = (fst (run (fst (step s ev)) evs), snd (step s ev) @ snd (run (fst (step s ev)) evs))"
  by (simp add: split_beta)

lemma run_append:
  "run s (xs @ ys) = (fst (run (fst (run s xs)) ys), snd (run s xs) @ snd (run (fst (run s xs)) ys))"
  by (induction xs arbitrary: s) (simp_all add: split_beta)

lemma run_fired_mono:
  "transitionFired s \<Longrightarrow> transitionFired (fst (run s evs))"
  by (induction evs arbitrary: s) (simp_all add: split_beta step_fired)

lemma run_not_again:
  "transitionFired s \<Longrightarrow> TransitionCallback \<notin> set (snd (run s evs))"
proof (induction evs arbitrary: s)
  case Nil
  then show ?case by simp
next
  case (Cons ev evs)
  have "transitionFired (fst (step s ev))"
    using Cons.prems by (simp add: step_fired)
  then have "TransitionCallback \<notin> set (snd (run (fst (step s ev)) evs))"
    by (rule Cons.IH)
  then show ?case
    using step_not_again [OF Cons.prems, of ev] by (simp add: split_beta)
qed

lemma run_count:
  "\<not> transitionFired s \<Longrightarrow>
     count_list (snd (run s evs)) TransitionCallback
       = (if transitionFired (fst (run s evs)) then 1 else 0)"
proof (induction evs arbitrary: s)
  case Nil
  then show ?case by simp
next
  case (Cons ev evs)
  show ?case
  proof (cases "TransitionCallback \<in> set (snd (step s ev))")
    case True
    then have fired: "transitionFired (fst (step s ev))"
      by (simp add: step_fired)
    have "count_list (snd (run (fst (step s ev)) evs)) TransitionCallback = 0"
      using run_not_again [OF fired, of evs] by (simp add: count_list_0_iff)
    then show ?thesis
      using True run_fired_mono [OF fired, of evs] by (simp add: split_beta step_count)
  next
    case False
    then have "\<not> transitionFired (fst (step s ev))"
      using Cons.prems by (simp add: step_fired)
    then show ?thesis
      using False Cons.IH [of "fst (step s ev)"] by (simp add: split_beta step_count)
  qed
qed

lemma step_settled_fired:
  assumes "settled s \<longrightarrow> transitionFired s"
  shows "settled (fst (step s ev)) \<longrightarrow> transitionFired (fst (step s ev))"
proof (cases ev)
  case (Frame delta)
  then show ?thesis
    using assms animateBanana_settled_fired [of "min delta (1 / 30)" "fst (animatePeel s)"]
    by (auto simp add: animate_unfold animatePeel_keeps animateBanana_fired)
qed (use assms in \<open>simp_all add: pointer_keeps_fired\<close>)

lemma run_settled_fired:
  "settled s \<longrightarrow> transitionFired s \<Longrightarrow>
     settled (fst (run s evs)) \<longrightarrow> transitionFired (fst (run s evs))"
proof (induction evs arbitrary: s)
  case Nil
  then show ?case by simp
next
  case (Cons ev evs)
  from Cons.prems have "settled (fst (step s ev)) \<longrightarrow> transitionFired (fst (step s ev))"
    by (rule step_settled_fired)
  then show ?case
    using Cons.IH [of "fst (step s ev)"] by (simp add: split_beta)
qed

text \<open>
  C8. From a state in which the callback has not fired and the wrapped object has not
  settled, over every sequence of events: the callback is invoked once if the flag
  \<^verbatim>\<open>transitionFired\<close> is set at the end and not at all otherwise; a frame invokes it
  exactly when it has not fired before, the wrapped object is falling (from this frame or
  an earlier one) and its height after the integration step is below \<open>-2\<close>; the frame
  that invokes it sets the flag and the object is falling then; once the flag is set no
  later event invokes it; and only frames invoke it.
\<close>

theorem transition_fires_once:
  assumes "\<not> transitionFired s0" and "\<not> settled s0"
  shows "count_list (snd (run s0 evs)) TransitionCallback
           = (if transitionFired (fst (run s0 evs)) then 1 else 0)
       \<and> (TransitionCallback \<in> set (snd (animate (fst (run s0 evs)) delta)) \<longleftrightarrow>
            \<not> transitionFired (fst (run s0 evs))
            \<and> bananaGroup (fst (run s0 evs))
            \<and> bananaFalling (fst (animatePeel (fst (run s0 evs))))
            \<and> fallenPosY (fst (run s0 evs)) delta < - 2)
       \<and> (TransitionCallback \<in> set (snd (animate (fst (run s0 evs)) delta)) \<longrightarrow>
            transitionFired (fst (animate (fst (run s0 evs)) delta))
            \<and> bananaFalling (fst (animate (fst (run s0 evs)) delta)))
       \<and> (transitionFired (fst (run s0 evs)) \<longrightarrow>
            TransitionCallback \<notin> set (snd (run (fst (run s0 evs)) later)))
       \<and> (\<forall>ev. TransitionCallback \<in> set (snd (step (fst (run s0 evs)) ev))
              \<longrightarrow> (\<exists>d. ev = Frame d))"
proof -
  let ?s = "fst (run s0 evs)"
  have inv: "settled ?s \<longrightarrow> transitionFired ?s"
    using assms(2) by (intro run_settled_fired) simp
  have once: "count_list (snd (run s0 evs)) TransitionCallback
           = (if transitionFired ?s then 1 else 0)"
    using assms(1) by (rule run_count)
  have frame: "TransitionCallback \<in> set (snd (animate ?s delta)) \<longleftrightarrow>
      \<not> transitionFired ?s \<and> bananaGroup ?s \<and> bananaFalling (fst (animatePeel ?s))
      \<and> fallenPosY ?s delta < - 2"
    using inv by (auto simp add: animate_transition)
  have falling: "TransitionCallback \<in> set (snd (animate ?s delta)) \<longrightarrow>
      transitionFired (fst (animate ?s delta)) \<and> bananaFalling (fst (animate ?s delta))"
    by (auto simp add: animate_fired animate_transition)
       (simp add: animate_unfold animateBanana_falling)
  have again: "transitionFired ?s \<longrightarrow> TransitionCallback \<notin> set (snd (run ?s later))"
    using run_not_again by blast
  have only_frames: "\<forall>ev. TransitionCallback \<in> set (snd (step ?s ev)) \<longrightarrow> (\<exists>d. ev = Frame d)"
    using step_transition_frame by blast
  show ?thesis
    using once frame falling again only_frames by blast
qed

text \<open>
  Over \<open>demoFall\<close> the callback is invoked once; at the end the wrapped object is still
  below \<open>-2\<close>, and a further frame does not invoke it.
\<close>

theorem transition_fires_once_witness:
  "\<not> transitionFired demoSim \<and> \<not> settled demoSim
   \<and> count_list (snd (run demoSim demoFall)) TransitionCallback = 1
   \<and> fallenPosY (fst (run demoSim demoFall)) (1 / 30) < - 2
   \<and> TransitionCallback \<notin> set (snd (animate (fst (run demoSim demoFall)) (1 / 30)))"
proof -
  have start: "\<not> transitionFired demoSim" "\<not> settled demoSim"
    by (simp_all add: demoSim_def loadedSim_def Let_def)
  have fired: "transitionFired (fst (run demoSim demoFall))"
    by (simp add: demo_fall)
  have below: "fallenPosY (fst (run demoSim demoFall)) (1 / 30) < - 2"
    by (simp add: demo_fall fallenPosY_def Let_def)
  from transition_fires_once [OF start, of demoFall "1 / 30" "[]"] fired
  have "count_list (snd (run demoSim demoFall)) TransitionCallback = 1
      \<and> TransitionCallback \<notin> set (snd (animate (fst (run demoSim demoFall)) (1 / 30)))"
    by simp
  then show ?thesis
    using start below by simp
qed

section \<open>The floor\<close>

lemma pointer_keeps_body:
  "bananaPosY (onDown s e) = bananaPosY s" "bananaPosY (onMove s e) = bananaPosY s"
  "bananaPosY (onUp s) = bananaPosY s"
  "bananaRotX (onDown s e) = bananaRotX s" "bananaRotX (onMove s e) = bananaRotX s"
  "bananaRotX (onUp s) = bananaRotX s"
  "fallVel (onDown s e) = fallVel s" "fallVel (onMove s e) = fallVel s"
  "fallVel (onUp s) = fallVel s"
  "bananaRotVelX (onDown s e) = bananaRotVelX s" "bananaRotVelX (onMove s e) = bananaRotVelX s"
  "bananaRotVelX (onUp s) = bananaRotVelX s"
  by (simp_all add: onDown_def onMove_def onUp_def lockDirection_def dragPeel_def Let_def
        split: option.splits)

lemma animateBanana_settled: "settled s \<Longrightarrow> animateBanana dt s = (s, [])"
  by (simp add: animateBanana_def)

lemma settled_step:
  assumes "settled s"
  shows "settled (fst (step s ev)) \<and> sameBody s (fst (step s ev))
       \<and> ThudSound \<notin> set (snd (step s ev))"
proof (cases ev)
  case (Frame delta)
  have "settled (fst (animatePeel s))"
    using assms by (simp add: animatePeel_keeps)
  then show ?thesis
    using Frame by (simp add: animate_unfold animateBanana_settled animatePeel_keeps sameBody_def)
qed (use assms in \<open>simp_all add: pointer_keeps_fired pointer_keeps_body sameBody_def\<close>)

lemma settled_run:
  "settled s \<Longrightarrow>
     settled (fst (run s evs)) \<and> sameBody s (fst (run s evs)) \<and> ThudSound \<notin> set (snd (run s evs))"
proof (induction evs arbitrary: s)
  case Nil
  then show ?case by (simp add: sameBody_def)
next
  case (Cons ev evs)
  note one = settled_step [OF Cons.prems, of ev]
  then have "settled (fst (step s ev))" by simp
  from Cons.IH [OF this] one show ?case
    by (simp add: split_beta sameBody_def)
qed

lemma animateBanana_bounce:
  assumes "bananaFalling s" and "bananaGroup s" and "\<not> settled s"
    and "bananaPosY s + (fallVel s - 9.8 * dt) * dt < - 3"
  shows "bananaPosY (fst (animateBanana dt s)) = - 3"
    and "ThudSound \<in> set (snd (animateBanana dt s))"
    and "\<bar>(fallVel s - 9.8 * dt) * (- 0.45)\<bar> < 0.4 \<Longrightarrow>
           fallVel (fst (animateBanana dt s)) = 0 \<and> bananaRotVelX (fst (animateBanana dt s)) = 0
           \<and> settled (fst (animateBanana dt s))"
    and "\<not> \<bar>(fallVel s - 9.8 * dt) * (- 0.45)\<bar> < 0.4 \<Longrightarrow>
           fallVel (fst (animateBanana dt s)) = (fallVel s - 9.8 * dt) * (- 0.45)
           \<and> bananaRotVelX (fst (animateBanana dt s)) = bananaRotVelX s * (- 0.5)
           \<and> \<not> settled (fst (animateBanana dt s))"
  using assms by (simp_all add: animateBanana_def Let_def)

text \<open>
  C9. On a frame in which the falling, not yet settled wrapped object comes below the
  floor \<open>-3\<close>: its height is set to \<open>-3\<close> and a thud plays; if the vertical velocity
  times \<open>-0.45\<close> has a magnitude of at least 0.4, that is the new vertical velocity, the
  angular velocity is multiplied by \<open>-0.5\<close> and the object is not settled; if the
  magnitude is below 0.4, both velocities are 0 and the object is settled, and from then
  on, over every sequence of events, its height, rotation and velocities stay as they
  are and no thud plays.
\<close>

theorem floor_bounce:
  assumes "bananaFalling (fst (animatePeel s))" and "bananaGroup s" and "\<not> settled s"
    and "fallenPosY s delta < - 3"
  shows "bananaPosY (fst (animate s delta)) = - 3
       \<and> ThudSound \<in> set (snd (animate s delta))
       \<and> (\<not> \<bar>(fallVel s - 9.8 * min delta (1 / 30)) * (- 0.45)\<bar> < 0.4 \<longrightarrow>
            fallVel (fst (animate s delta)) = (fallVel s - 9.8 * min delta (1 / 30)) * (- 0.45)
            \<and> bananaRotVelX (fst (animate s delta)) = bananaRotVelX s * (- 0.5)
            \<and> \<not> settled (fst (animate s delta)))
       \<and> (\<bar>(fallVel s - 9.8 * min delta (1 / 30)) * (- 0.45)\<bar> < 0.4 \<longrightarrow>
            fallVel (fst (animate s delta)) = 0
            \<and> bananaRotVelX (fst (animate s delta)) = 0
            \<and> settled (fst (animate s delta))
            \<and> (\<forall>evs. bananaPosY (fst (run (fst (animate s delta)) evs)) = - 3
                     \<and> bananaRotX (fst (run (fst (animate s delta)) evs))
                         = bananaRotX (fst (animate s delta))
                     \<and> fallVel (fst (run (fst (animate s delta)) evs)) = 0
                     \<and> bananaRotVelX (fst (run (fst (animate s delta)) evs)) = 0
                     \<and> settled (fst (run (fst (animate s delta)) evs))
                     \<and> ThudSound \<notin> set (snd (run (fst (animate s delta)) evs))))"
proof -
  let ?dt = "min delta (1 / 30)"
  let ?s1 = "fst (animatePeel s)"
  have pre: "bananaFalling ?s1" "bananaGroup ?s1" "\<not> settled ?s1"
    "bananaPosY ?s1 + (fallVel ?s1 - 9.8 * ?dt) * ?dt < - 3"
    using assms by (simp_all add: animatePeel_keeps fallenPosY_def Let_def)
  note b = animateBanana_bounce [OF pre]
  have st: "fst (animate s delta) = fst (animateBanana ?dt ?s1)"
    by (simp add: animate_unfold)
  have pos: "bananaPosY (fst (animate s delta)) = - 3"
    using b(1) by (simp add: st)
  have thud: "ThudSound \<in> set (snd (animate s delta))"
    using b(2) by (simp add: animate_unfold)
  have bounce: "\<not> \<bar>(fallVel s - 9.8 * ?dt) * (- 0.45)\<bar> < 0.4 \<Longrightarrow>
      fallVel (fst (animate s delta)) = (fallVel s - 9.8 * ?dt) * (- 0.45)
      \<and> bananaRotVelX (fst (animate s delta)) = bananaRotVelX s * (- 0.5)
      \<and> \<not> settled (fst (animate s delta))"
    using b(4) by (simp add: st animatePeel_keeps)
  have rest: "\<bar>(fallVel s - 9.8 * ?dt) * (- 0.45)\<bar> < 0.4 \<Longrightarrow>
      fallVel (fst (animate s delta)) = 0 \<and> bananaRotVelX (fst (animate s delta)) = 0
      \<and> settled (fst (animate s delta))"
    using b(3) by (simp add: st animatePeel_keeps)
  have after: "\<bar>(fallVel s - 9.8 * ?dt) * (- 0.45)\<bar> < 0.4 \<Longrightarrow>
      bananaPosY (fst (run (fst (animate s delta)) evs)) = - 3
      \<and> bananaRotX (fst (run (fst (animate s delta)) evs)) = bananaRotX (fst (animate s delta))
      \<and> fallVel (fst (run (fst (animate s delta)) evs)) = 0
      \<and> bananaRotVelX (fst (run (fst (animate s delta)) evs)) = 0
      \<and> settled (fst (run (fst (animate s delta)) evs))
      \<and> ThudSound \<notin> set (snd (run (fst (animate s delta)) evs))" for evs
  proof -
    assume small: "\<bar>(fallVel s - 9.8 * ?dt) * (- 0.45)\<bar> < 0.4"
    from rest [OF small] have "settled (fst (animate s delta))" by simp
    from settled_run [OF this, of evs] rest [OF small] pos show ?thesis
      by (simp add: sameBody_def)
  qed
  show ?thesis
    using pos thud bounce rest after by blast
qed

text \<open>
  After \<open>demoFall\<close> the next frame takes the wrapped object below the floor with a
  rebound speed under 0.4, and it settles; and a frame that reaches the floor at the
  velocity \<open>-2/3\<close> rebounds at 0.3 and settles, too.
\<close>

theorem floor_bounce_witness:
  "fallenPosY (fst (run demoSim demoFall)) (1 / 30) < - 3
   \<and> settled (fst (animate (fst (run demoSim demoFall)) (1 / 30)))
   \<and> fallVel (fst (animate (fst (run demoSim demoFall)) (1 / 30))) = 0
   \<and> ThudSound \<in> set (snd (animate (fst (run demoSim demoFall)) (1 / 30)))
   \<and> ThudSound \<notin> set (snd (run (fst (animate (fst (run demoSim demoFall)) (1 / 30)))
                                [Frame (1 / 30), Frame (1 / 30)]))
   \<and> \<bar>(fallVel (demoSim\<lparr>bananaFalling := True, bananaPosY := - 3, fallVel := - (17/50)\<rparr>)
          - 9.8 * min (1 / 30) (1 / 30)) * (- 0.45)\<bar> = 0.3
   \<and> settled (fst (animate
         (demoSim\<lparr>bananaFalling := True, bananaPosY := - 3, fallVel := - (17/50)\<rparr>) (1 / 30)))"
proof -
  let ?s = "fst (run demoSim demoFall)"
  let ?t = "demoSim\<lparr>bananaFalling := True, bananaPosY := - 3, fallVel := - (17/50)\<rparr>"
  have s: "bananaFalling (fst (animatePeel ?s))" "bananaGroup ?s" "\<not> settled ?s"
    "fallenPosY ?s (1 / 30) < - 3"
    "\<bar>(fallVel ?s - 9.8 * min (1 / 30) (1 / 30)) * (- 0.45)\<bar> < 0.4"
    by (simp_all add: demo_fall fallenPosY_def animatePeel_def Let_def)
       (simp_all add: demoSim_def loadedSim_def Let_def)
  have t: "bananaFalling (fst (animatePeel ?t))" "bananaGroup ?t" "\<not> settled ?t"
    "fallenPosY ?t (1 / 30) < - 3"
    "\<bar>(fallVel ?t - 9.8 * min (1 / 30) (1 / 30)) * (- 0.45)\<bar> = 0.3"
    by (simp_all add: fallenPosY_def animatePeel_def demoSim_def loadedSim_def Let_def)
  from floor_bounce [OF s(1-4)] s(5)
  have "settled (fst (animate ?s (1 / 30))) \<and> fallVel (fst (animate ?s (1 / 30))) = 0
      \<and> ThudSound \<in> set (snd (animate ?s (1 / 30)))
      \<and> ThudSound \<notin> set (snd (run (fst (animate ?s (1 / 30))) [Frame (1 / 30), Frame (1 / 30)]))"
    by blast
  moreover from floor_bounce [OF t(1-4)] t(5)
  have "settled (fst (animate ?t (1 / 30)))"
    by simp
  ultimately show ?thesis
    using s(4) t(5) by simp
qed

end
